theory Spec2Isabelle
  imports Complex_Main "HOL-Library.Sublist"
begin

section \<open>JavaScript values used by the access layer\<close>

text \<open>
  Counts and page sizes are non-negative integers (\<open>nat\<close>); a JSON field that may be
  absent is an \<open>option\<close> (\<open>None\<close> is JavaScript's \<open>undefined\<close>). JavaScript numbers
  are IEEE doubles: on the integers the application handles (far below \<open>2^53\<close>) the
  quotient's ceiling is the exact one, so a finite number is modelled as a real. The two
  non-finite results a division of non-negative numbers can give are kept as values of
  their own.
\<close>

datatype jsnum = Num real | NaN | Infinity

text \<open>\<open>a / b\<close> where \<open>a\<close> is a possibly absent count and \<open>b\<close> a count.\<close>

definition js_div :: "nat option \<Rightarrow> nat \<Rightarrow> jsnum" where
  "js_div a b =
     (case a of
        None \<Rightarrow> NaN
      | Some n \<Rightarrow>
          if b = 0 then (if n = 0 then NaN else Infinity)
          else Num (real n / real b))"

fun Math_ceil :: "jsnum \<Rightarrow> jsnum" where
  "Math_ceil (Num x) = Num (of_int \<lceil>x\<rceil>)"
| "Math_ceil NaN = NaN"
| "Math_ceil Infinity = Infinity"

text \<open>\<open>x || 0\<close> on a possibly absent count: \<open>undefined\<close> and \<open>0\<close> both give \<open>0\<close>.\<close>

definition or_zero :: "nat option \<Rightarrow> nat" where
  "or_zero a = (case a of None \<Rightarrow> 0 | Some n \<Rightarrow> n)"

text \<open>\<open>s || fallback\<close> on a possibly absent string: \<open>undefined\<close> and \<open>''\<close> are falsy.\<close>

definition or_string :: "string option \<Rightarrow> string \<Rightarrow> string" where
  "or_string s fallback = (case s of None \<Rightarrow> fallback | Some t \<Rightarrow> if t = [] then fallback else t)"

text \<open>Template-literal interpolation of a non-negative integer: its decimal digits.\<close>

fun digit_char :: "nat \<Rightarrow> char" where
  "digit_char n = char_of (48 + n)"

function string_of_nat :: "nat \<Rightarrow> string" where
  "string_of_nat n =
     (if n < 10 then [digit_char n] else string_of_nat (n div 10) @ [digit_char (n mod 10)])"
  by pat_completeness auto
termination
  by (relation "measure (\<lambda>n. n)") auto

declare string_of_nat.simps [simp del]

section \<open>HTTP: requests, responses and thrown errors\<close>

text \<open>
  \<open>BASE_URL\<close> of \<open>api.ts\<close>.
\<close>

definition BASE_URL :: string where
  "BASE_URL = ''https://www.wholesale-supplier.uk''"

record sort_order =
  sort_field :: string
  direction :: string

datatype filter_value = NumValue nat | StrValue string

record search_filter =
  field :: string
  filter_value :: filter_value
  conditionType :: string

record filter_group =
  filters :: "search_filter list"

record searchCriteria =
  currentPage :: nat
  pageSize :: nat
  sortOrders :: "sort_order list"
  filterGroups :: "filter_group list option"

text \<open>
  A request body: the credentials of a login, a product document handed through
  unchanged (its JSON text), or the media entry \<open>uploadProductImage\<close> builds.
\<close>

datatype body =
    Credentials string string
  | ProductData string
  | MediaEntry (entry_position: nat) (base64_encoded_data: string) (content_type: string)
      (content_name: string)

record http_request =
  http_method :: string
  url :: string
  Authorization :: "string option"
  params :: "searchCriteria option"
  body :: "body option"

text \<open>
  The data of a successful response. The list endpoints answer with \<open>items\<close> and
  \<open>total_count\<close>; the category endpoint answers with the root category, whose children
  are \<open>children_data\<close>. Every field may be absent.
\<close>

record 'i response_data =
  items :: "'i list option"
  children_data :: "'i list option"
  total_count :: "nat option"
  token_text :: "string option"

text \<open>
  A thrown JavaScript error: \<open>new Error(msg)\<close> has only a message; an axios error may
  carry the response (status and the \<open>message\<close> of its body) and the request.
\<close>

record error_response =
  status :: nat
  data_message :: "string option"

record js_error =
  message :: string
  response :: "error_response option"
  request :: bool

definition new_Error :: "string \<Rightarrow> js_error" where
  "new_Error msg = \<lparr>message = msg, response = None, request = False\<rparr>"

text \<open>
  What \<open>axios\<close> does with a request: it resolves with the response's data, or rejects
  with an error (a status outside 2xx, no response, or a failure to set the request up).
\<close>

datatype 'i axios_outcome = Resolved "'i response_data" | Rejected js_error

text \<open>
  The process-wide state the access layer touches: the key-value store
  (\<open>AsyncStorage\<close>; \<open>storage_available\<close> False makes its operations reject), the events
  emitted on \<open>EventRegister\<close>, the HTTP requests issued so far (oldest first), the routes
  handed to \<open>router.replace\<close> so far (the last one is the current route) and the lines
  written by \<open>console.error\<close>.
\<close>

record world =
  storage :: "string \<rightharpoonup> string"
  storage_available :: bool
  emitted :: "string list"
  requests :: "http_request list"
  navigations :: "string list"
  console_errors :: "string list"

text \<open>
  The remote platform: given the requests seen before and the request at hand, the
  outcome \<open>axios\<close> reports.
\<close>

type_synonym 'i remote = "http_request list \<Rightarrow> http_request \<Rightarrow> 'i axios_outcome"

definition send :: "'i remote \<Rightarrow> http_request \<Rightarrow> world \<Rightarrow> 'i axios_outcome \<times> world" where
  "send remote req w = (remote (requests w) req, w\<lparr>requests := requests w @ [req]\<rparr>)"

definition EventRegister_emit :: "string \<Rightarrow> world \<Rightarrow> world" where
  "EventRegister_emit ev w = w\<lparr>emitted := emitted w @ [ev]\<rparr>"

section \<open>The gateway: \<open>api.ts\<close>\<close>

text \<open>
  \<open>handleAuthError\<close> never returns normally: on a 401 it emits \<open>logout\<close> and throws the
  session-expired error, otherwise it rethrows the error it was given.
\<close>

definition session_expired :: js_error where
  "session_expired = new_Error ''Your session has expired. Please login again.''"

definition handleAuthError :: "js_error \<Rightarrow> world \<Rightarrow> (js_error + unit) \<times> world" where
  "handleAuthError error w =
     (if map_option status (response error) = Some 401
      then (Inl session_expired, EventRegister_emit ''logout'' w)
      else (Inl error, w))"

text \<open>
  The \<open>catch\<close> block every axios operation shares, up to the fallback messages:
  \<open>handleAuthError(error)\<close> first, then the choice of a message.
\<close>

definition catch_block :: "string \<Rightarrow> string \<Rightarrow> js_error \<Rightarrow> world \<Rightarrow> (js_error + 'a) \<times> world" where
  "catch_block failed_msg other_msg error w =
     (case handleAuthError error w of
        (Inl e, w') \<Rightarrow> (Inl e, w')
      | (Inr _, w') \<Rightarrow>
          (case response error of
             Some r \<Rightarrow> (Inl (new_Error (or_string (data_message r) failed_msg)), w')
           | None \<Rightarrow>
               if request error
               then (Inl (new_Error ''No response from server. Please check your internet connection.''), w')
               else (Inl (new_Error other_msg), w')))"

record 'i page_result =
  result_items :: "'i list option"
  result_total_count :: "nat option"
  current_page :: nat
  total_pages :: jsnum

definition bearer :: "string \<Rightarrow> string" where
  "bearer token = ''Bearer '' @ token"

definition default_criteria :: "nat \<Rightarrow> nat \<Rightarrow> string \<Rightarrow> string \<Rightarrow> searchCriteria" where
  "default_criteria page page_size fld dir =
     \<lparr>currentPage = page, pageSize = page_size,
      sortOrders = [\<lparr>sort_field = fld, direction = dir\<rparr>], filterGroups = None\<rparr>"

text \<open>
  The \<open>try\<close>/\<open>catch\<close> frame of every axios operation: issue the request, hand the
  response's data on, or run the \<open>catch\<close> block on the error.
\<close>

definition axios_call ::
  "'i remote \<Rightarrow> http_request \<Rightarrow> string \<Rightarrow> string \<Rightarrow> world \<Rightarrow> (js_error + 'i response_data) \<times> world" where
  "axios_call remote req failed_msg other_msg w =
     (case send remote req w of
        (Resolved d, w') \<Rightarrow> (Inr d, w')
      | (Rejected error, w') \<Rightarrow> catch_block failed_msg other_msg error w')"

definition paged :: "nat \<Rightarrow> nat \<Rightarrow> 'i response_data \<Rightarrow> 'i page_result" where
  "paged page page_size d =
     \<lparr>result_items = items d, result_total_count = total_count d, current_page = page,
      total_pages = Math_ceil (js_div (total_count d) page_size)\<rparr>"

definition getOrders ::
  "'i remote \<Rightarrow> string \<Rightarrow> nat \<Rightarrow> nat \<Rightarrow> world \<Rightarrow> (js_error + 'i page_result) \<times> world" where
  "getOrders remote token page page_size w =
     (case axios_call remote
        \<lparr>http_method = ''GET'', url = BASE_URL @ ''/rest/V1/orders'', Authorization = Some (bearer token),
         params = Some (default_criteria page page_size ''created_at'' ''DESC''), body = None\<rparr>
        ''Failed to fetch orders'' ''An error occurred while fetching orders.'' w of
        (Inl e, w') \<Rightarrow> (Inl e, w')
      | (Inr d, w') \<Rightarrow> (Inr (paged page page_size d), w'))"

definition getOrderDetails ::
  "'i remote \<Rightarrow> string \<Rightarrow> string \<Rightarrow> world \<Rightarrow> (js_error + 'i response_data) \<times> world" where
  "getOrderDetails remote token orderId w =
     axios_call remote
       \<lparr>http_method = ''GET'', url = BASE_URL @ ''/rest/V1/orders/'' @ orderId,
        Authorization = Some (bearer token), params = None, body = None\<rparr>
       ''Failed to fetch order details'' ''An error occurred while fetching order details.'' w"

text \<open>
  \<open>ProductFilters\<close>: \<open>status\<close> is \<open>1\<close>, \<open>2\<close>, \<open>null\<close> or absent; \<open>search\<close> is a string or
  absent. (The fields are named \<open>status_filter\<close> and \<open>search\<close> here: \<open>status\<close> is the
  response's.)
\<close>

record ProductFilters =
  status_filter :: "nat option"
  search :: "string option"

text \<open>
  \<open>searchCriteria.filterGroups[index].filters.push(f)\<close>. Where it is used the index is that
  of the group pushed just before, so it is in range (lemma \<open>search_index_in_range\<close>).
\<close>

definition push_filter :: "nat \<Rightarrow> search_filter \<Rightarrow> filter_group list \<Rightarrow> filter_group list" where
  "push_filter index f gs = gs[index := (gs ! index)\<lparr>filters := filters (gs ! index) @ [f]\<rparr>]"

definition like_filter :: "string \<Rightarrow> string \<Rightarrow> search_filter" where
  "like_filter fld s =
     \<lparr>field = fld, filter_value = StrValue (''%'' @ s @ ''%''), conditionType = ''like''\<rparr>"

text \<open>The search criteria \<open>getProducts\<close> builds before it issues the request.\<close>

text \<open>
  \<open>if (filters.status)\<close>: an absent status, \<open>null\<close> and \<open>0\<close> are falsy. The assignment
  replaces whatever \<open>filterGroups\<close> held.
\<close>

definition status_step :: "ProductFilters \<Rightarrow> searchCriteria \<Rightarrow> searchCriteria" where
  "status_step fs c =
     (case status_filter fs of
        None \<Rightarrow> c
      | Some n \<Rightarrow>
          if n = 0 then c
          else c\<lparr>filterGroups :=
                 Some [\<lparr>filters = [\<lparr>field = ''status'', filter_value = NumValue n,
                                        conditionType = ''eq''\<rparr>]\<rparr>]\<rparr>)"

text \<open>
  \<open>if (filters.search)\<close>: an absent search string and the empty one are falsy. The index
  is \<open>1\<close> when \<open>filterGroups\<close> exists and \<open>0\<close> otherwise; an empty group is pushed, then
  the four predicates are pushed into the group at the index.
\<close>

definition search_index :: "searchCriteria \<Rightarrow> nat" where
  "search_index c = (case filterGroups c of Some _ \<Rightarrow> 1 | None \<Rightarrow> 0)"

definition groups_or_empty :: "searchCriteria \<Rightarrow> filter_group list" where
  "groups_or_empty c = (case filterGroups c of Some gs \<Rightarrow> gs | None \<Rightarrow> [])"

definition search_step :: "ProductFilters \<Rightarrow> searchCriteria \<Rightarrow> searchCriteria" where
  "search_step fs c =
     (case search fs of
        None \<Rightarrow> c
      | Some s \<Rightarrow>
          if s = [] then c
          else
            (let index = search_index c;
                 g0 = groups_or_empty c @ [\<lparr>filters = []\<rparr>];
                 g1 = push_filter index (like_filter ''name'' s) g0;
                 g2 = push_filter index (like_filter ''sku'' s) g1;
                 g3 = push_filter index (like_filter ''description'' s) g2;
                 g4 = push_filter index (like_filter ''eancode'' s) g3
             in c\<lparr>filterGroups := Some g4\<rparr>))"

definition products_criteria :: "nat \<Rightarrow> nat \<Rightarrow> ProductFilters option \<Rightarrow> searchCriteria" where
  "products_criteria page page_size filters_opt =
     (let c = default_criteria page page_size ''created_at'' ''DESC''
      in case filters_opt of
           None \<Rightarrow> c
         | Some fs \<Rightarrow> search_step fs (status_step fs c))"

definition getProducts ::
  "'i remote \<Rightarrow> string \<Rightarrow> nat \<Rightarrow> nat \<Rightarrow> ProductFilters option \<Rightarrow> world
     \<Rightarrow> (js_error + 'i page_result) \<times> world" where
  "getProducts remote token page page_size filters_opt w =
     (case axios_call remote
        \<lparr>http_method = ''GET'', url = BASE_URL @ ''/rest/V1/products'', Authorization = Some (bearer token),
         params = Some (products_criteria page page_size filters_opt), body = None\<rparr>
        ''Failed to fetch products'' ''An error occurred while fetching products.'' w of
        (Inl e, w') \<Rightarrow> (Inl e, w')
      | (Inr d, w') \<Rightarrow> (Inr (paged page page_size d), w'))"

definition getProductDetails ::
  "'i remote \<Rightarrow> string \<Rightarrow> string \<Rightarrow> world \<Rightarrow> (js_error + 'i response_data) \<times> world" where
  "getProductDetails remote token sku w =
     axios_call remote
       \<lparr>http_method = ''GET'', url = BASE_URL @ ''/rest/V1/products/'' @ sku,
        Authorization = Some (bearer token), params = None, body = None\<rparr>
       ''Failed to fetch product details'' ''An error occurred while fetching product details.'' w"

definition getCustomers ::
  "'i remote \<Rightarrow> string \<Rightarrow> nat \<Rightarrow> nat \<Rightarrow> world \<Rightarrow> (js_error + 'i page_result) \<times> world" where
  "getCustomers remote token page page_size w =
     (case axios_call remote
        \<lparr>http_method = ''GET'', url = BASE_URL @ ''/rest/V1/customers/search'',
         Authorization = Some (bearer token),
         params = Some (default_criteria page page_size ''created_at'' ''DESC''), body = None\<rparr>
        ''Failed to fetch customers'' ''An error occurred while fetching customers.'' w of
        (Inl e, w') \<Rightarrow> (Inl e, w')
      | (Inr d, w') \<Rightarrow> (Inr (paged page page_size d), w'))"

definition getCustomerDetails ::
  "'i remote \<Rightarrow> string \<Rightarrow> string \<Rightarrow> world \<Rightarrow> (js_error + 'i response_data) \<times> world" where
  "getCustomerDetails remote token customerId w =
     axios_call remote
       \<lparr>http_method = ''GET'', url = BASE_URL @ ''/rest/V1/customers/'' @ customerId,
        Authorization = Some (bearer token), params = None, body = None\<rparr>
       ''Failed to fetch customer details'' ''An error occurred while fetching customer details.'' w"

text \<open>
  \<open>getCategories\<close> reads the root category's \<open>children_data\<close> and takes an absent
  \<open>total_count\<close> as \<open>0\<close>.
\<close>

definition getCategories ::
  "'i remote \<Rightarrow> string \<Rightarrow> nat \<Rightarrow> nat \<Rightarrow> world \<Rightarrow> (js_error + 'i page_result) \<times> world" where
  "getCategories remote token page page_size w =
     (case axios_call remote
        \<lparr>http_method = ''GET'', url = BASE_URL @ ''/rest/V1/categories'', Authorization = Some (bearer token),
         params = Some (default_criteria page page_size ''position'' ''ASC''), body = None\<rparr>
        ''Failed to fetch categories'' ''An error occurred while fetching categories.'' w of
        (Inl e, w') \<Rightarrow> (Inl e, w')
      | (Inr d, w') \<Rightarrow>
          (Inr \<lparr>result_items = children_data d,
                result_total_count = Some (or_zero (total_count d)),
                current_page = page,
                total_pages = Math_ceil (js_div (Some (or_zero (total_count d))) page_size)\<rparr>, w'))"

definition getCategoryDetails ::
  "'i remote \<Rightarrow> string \<Rightarrow> string \<Rightarrow> world \<Rightarrow> (js_error + 'i response_data) \<times> world" where
  "getCategoryDetails remote token categoryId w =
     axios_call remote
       \<lparr>http_method = ''GET'', url = BASE_URL @ ''/rest/V1/categories/'' @ categoryId,
        Authorization = Some (bearer token), params = None, body = None\<rparr>
       ''Failed to fetch category details'' ''An error occurred while fetching category details.'' w"

definition createProduct ::
  "'i remote \<Rightarrow> string \<Rightarrow> string \<Rightarrow> world \<Rightarrow> (js_error + 'i response_data) \<times> world" where
  "createProduct remote token productData w =
     axios_call remote
       \<lparr>http_method = ''POST'', url = BASE_URL @ ''/rest/V1/products'',
        Authorization = Some (bearer token), params = None, body = Some (ProductData productData)\<rparr>
       ''Failed to create product'' ''An error occurred while creating the product.'' w"

definition uploadProductImage ::
  "'i remote \<Rightarrow> string \<Rightarrow> string \<Rightarrow> string \<Rightarrow> nat \<Rightarrow> string \<Rightarrow> world
     \<Rightarrow> (js_error + 'i response_data) \<times> world" where
  "uploadProductImage remote token sku imageData position type w =
     axios_call remote
       \<lparr>http_method = ''POST'', url = BASE_URL @ ''/rest/V1/products/'' @ sku @ ''/media'',
        Authorization = Some (bearer token), params = None,
        body = Some (MediaEntry position imageData type
                       (''product_'' @ string_of_nat position @ ''.jpg''))\<rparr>
       ''Failed to upload image'' ''An error occurred while uploading the image.'' w"

definition discard :: "(js_error + 'a) \<times> world \<Rightarrow> (js_error + unit) \<times> world" where
  "discard r = (case r of (Inl e, w) \<Rightarrow> (Inl e, w) | (Inr _, w) \<Rightarrow> (Inr (), w))"

definition deleteProduct_request :: "string \<Rightarrow> string \<Rightarrow> http_request" where
  "deleteProduct_request token sku =
     \<lparr>http_method = ''DELETE'', url = BASE_URL @ ''/rest/V1/products/'' @ sku,
      Authorization = Some (bearer token), params = None, body = None\<rparr>"

definition deleteProduct :: "'i remote \<Rightarrow> string \<Rightarrow> string \<Rightarrow> world \<Rightarrow> (js_error + unit) \<times> world" where
  "deleteProduct remote token sku w =
     discard (axios_call remote (deleteProduct_request token sku)
       ''Failed to delete product'' ''An error occurred while deleting the product.'' w)"

definition deleteProductImage_request :: "string \<Rightarrow> string \<Rightarrow> nat \<Rightarrow> http_request" where
  "deleteProductImage_request token sku imageId =
     \<lparr>http_method = ''DELETE'',
      url = BASE_URL @ ''/rest/V1/products/'' @ sku @ ''/media/'' @ string_of_nat imageId,
      Authorization = Some (bearer token), params = None, body = None\<rparr>"

definition deleteProductImage ::
  "'i remote \<Rightarrow> string \<Rightarrow> string \<Rightarrow> nat \<Rightarrow> world \<Rightarrow> (js_error + unit) \<times> world" where
  "deleteProductImage remote token sku imageId w =
     discard (axios_call remote (deleteProductImage_request token sku imageId)
       ''Failed to delete product image'' ''An error occurred while deleting the product image.'' w)"

definition updateProduct ::
  "'i remote \<Rightarrow> string \<Rightarrow> string \<Rightarrow> string \<Rightarrow> world \<Rightarrow> (js_error + 'i response_data) \<times> world" where
  "updateProduct remote token sku productData w =
     axios_call remote
       \<lparr>http_method = ''PUT'', url = BASE_URL @ ''/rest/V1/products/'' @ sku,
        Authorization = Some (bearer token), params = None, body = Some (ProductData productData)\<rparr>
       ''Failed to update product'' ''An error occurred while updating the product.'' w"

text \<open>
  \<open>login\<close> has a \<open>catch\<close> block of its own, without \<open>handleAuthError\<close>; the error it
  throws inside \<open>try\<close> for an empty token is caught by that block as well.
\<close>

definition login_catch :: "js_error \<Rightarrow> world \<Rightarrow> (js_error + 'a) \<times> world" where
  "login_catch error w =
     (case response error of
        Some r \<Rightarrow> (Inl (new_Error (or_string (data_message r) ''Invalid credentials'')), w)
      | None \<Rightarrow>
          if request error
          then (Inl (new_Error ''No response from server. Please check your internet connection.''), w)
          else (Inl (new_Error ''An error occurred while trying to log in.''), w))"

definition login :: "'i remote \<Rightarrow> string \<Rightarrow> string \<Rightarrow> world \<Rightarrow> (js_error + string) \<times> world" where
  "login remote username password w =
     (case send remote
        \<lparr>http_method = ''POST'', url = BASE_URL @ ''/rest/V1/integration/admin/token'',
         Authorization = None, params = None, body = Some (Credentials username password)\<rparr> w of
        (Resolved d, w') \<Rightarrow>
          (case token_text d of
             None \<Rightarrow> login_catch (new_Error ''No token received from server'') w'
           | Some t \<Rightarrow>
               if t = [] then login_catch (new_Error ''No token received from server'') w'
               else (Inr t, w'))
      | (Rejected error, w') \<Rightarrow> login_catch error w')"

subsection \<open>The key-value store\<close>

text \<open>
  \<open>AsyncStorage\<close>: each operation rejects when the store is unavailable (the text of
  that error is the library's; a placeholder stands for it).
\<close>

definition storage_error :: js_error where
  "storage_error = new_Error ''AsyncStorage failure''"

definition AsyncStorage_getItem :: "string \<Rightarrow> world \<Rightarrow> js_error + string option" where
  "AsyncStorage_getItem k w = (if storage_available w then Inr (storage w k) else Inl storage_error)"

definition AsyncStorage_setItem :: "string \<Rightarrow> string \<Rightarrow> world \<Rightarrow> js_error + world" where
  "AsyncStorage_setItem k v w =
     (if storage_available w then Inr (w\<lparr>storage := (storage w)(k \<mapsto> v)\<rparr>) else Inl storage_error)"

definition AsyncStorage_removeItem :: "string \<Rightarrow> world \<Rightarrow> js_error + world" where
  "AsyncStorage_removeItem k w =
     (if storage_available w then Inr (w\<lparr>storage := (storage w)(k := None)\<rparr>) else Inl storage_error)"

subsection \<open>\<open>deleteCategory\<close>\<close>

text \<open>
  \<open>fetch\<close> against the same platform: it resolves for every HTTP status, with \<open>ok\<close> true
  on 2xx, and rejects only when no response arrives.
\<close>

record fetch_response =
  fetch_status :: "nat option"
  ok :: bool

definition fetch :: "'i remote \<Rightarrow> http_request \<Rightarrow> world \<Rightarrow> (js_error + fetch_response) \<times> world" where
  "fetch remote req w =
     (case send remote req w of
        (Resolved d, w') \<Rightarrow> (Inr \<lparr>fetch_status = None, ok = True\<rparr>, w')
      | (Rejected error, w') \<Rightarrow>
          (case response error of
             Some r \<Rightarrow>
               (Inr \<lparr>fetch_status = Some (status r), ok = (200 \<le> status r \<and> status r \<le> 299)\<rparr>, w')
           | None \<Rightarrow> (Inl error, w')))"

text \<open>\<open>`Bearer ${token}`\<close> where \<open>token\<close> is what \<open>getItem\<close> gave: \<open>null\<close> prints as \<open>null\<close>.\<close>

definition bearer_stored :: "string option \<Rightarrow> string" where
  "bearer_stored t = ''Bearer '' @ (case t of None \<Rightarrow> ''null'' | Some s \<Rightarrow> s)"

definition deleteCategory_request :: "string option \<Rightarrow> nat \<Rightarrow> http_request" where
  "deleteCategory_request t category_id =
     \<lparr>http_method = ''DELETE'', url = BASE_URL @ ''/categories/'' @ string_of_nat category_id,
      Authorization = Some (bearer_stored t), params = None, body = None\<rparr>"

definition deleteCategory :: "'i remote \<Rightarrow> nat \<Rightarrow> world \<Rightarrow> (js_error + unit) \<times> world" where
  "deleteCategory remote category_id w =
     (case AsyncStorage_getItem ''token'' w of
        Inl e \<Rightarrow> (Inl e, w)
      | Inr t \<Rightarrow>
          (case fetch remote (deleteCategory_request t category_id) w of
             (Inl e, w') \<Rightarrow> (Inl e, w')
           | (Inr r, w') \<Rightarrow>
               if \<not> ok r then (Inl (new_Error ''Failed to delete category''), w')
               else (Inr (), w')))"

section \<open>The session: \<open>AuthProvider\<close>\<close>

record User =
  username :: string
  token :: string

record auth_state =
  user :: "User option"
  isAuthenticated :: bool

text \<open>\<open>JSON.stringify(userData)\<close> (the escaping of special characters left out).\<close>

definition quoted :: "string \<Rightarrow> string" where
  "quoted s = CHR 0x22 # s @ [CHR 0x22]"

definition JSON_stringify :: "User \<Rightarrow> string" where
  "JSON_stringify u =
     ''{'' @ quoted ''username'' @ '':'' @ quoted (username u) @ '','' @
     quoted ''token'' @ '':'' @ quoted (token u) @ ''}''"

text \<open>
  \<open>checkAuthState\<close>: \<open>parse\<close> stands for \<open>JSON.parse\<close> (\<open>None\<close> when it throws); every
  error is swallowed by the \<open>catch\<close>.
\<close>

definition checkAuthState :: "(string \<Rightarrow> User option) \<Rightarrow> auth_state \<times> world \<Rightarrow> auth_state \<times> world" where
  "checkAuthState parse aw =
     (case aw of (a, w) \<Rightarrow>
        (case AsyncStorage_getItem ''user'' w of
           Inl e \<Rightarrow> (a, w)
         | Inr None \<Rightarrow> (a, w)
         | Inr (Some userStr) \<Rightarrow>
             if userStr = [] then (a, w)
             else (case parse userStr of
                     None \<Rightarrow> (a, w)
                   | Some u \<Rightarrow> (a\<lparr>user := Some u, isAuthenticated := True\<rparr>, w))))"

definition handleLogin ::
  "'i remote \<Rightarrow> string \<Rightarrow> string \<Rightarrow> auth_state \<times> world \<Rightarrow> (js_error + unit) \<times> auth_state \<times> world" where
  "handleLogin remote name password aw =
     (case aw of (a, w) \<Rightarrow>
        (case login remote name password w of
           (Inl e, w') \<Rightarrow> (Inl e, a, w')
         | (Inr t, w') \<Rightarrow>
             (let userData = \<lparr>username = name, token = t\<rparr>
              in case AsyncStorage_setItem ''user'' (JSON_stringify userData) w' of
                   Inl e \<Rightarrow> (Inl e, a, w')
                 | Inr w'' \<Rightarrow> (Inr (), a\<lparr>user := Some userData, isAuthenticated := True\<rparr>, w''))))"

text \<open>
  \<open>handleLogout\<close> returns normally in every case: a failure of \<open>removeItem\<close> is caught
  and written to the console, and the three updates after it are skipped.
\<close>

definition handleLogout :: "auth_state \<times> world \<Rightarrow> auth_state \<times> world" where
  "handleLogout aw =
     (case aw of (a, w) \<Rightarrow>
        (case AsyncStorage_removeItem ''user'' w of
           Inl e \<Rightarrow> (a, w\<lparr>console_errors := console_errors w @ [''Error during logout:'']\<rparr>)
         | Inr w' \<Rightarrow> (a\<lparr>user := None, isAuthenticated := False\<rparr>, w'\<lparr>navigations := navigations w' @ [''/'']\<rparr>)))"

text \<open>
  The provider's listener runs \<open>handleLogout\<close> once for every \<open>logout\<close> event emitted.
\<close>

fun deliver :: "string list \<Rightarrow> auth_state \<times> world \<Rightarrow> auth_state \<times> world" where
  "deliver [] aw = aw"
| "deliver (ev # evs) aw = deliver evs (if ev = ''logout'' then handleLogout aw else aw)"

text \<open>\<open>user?.token || ''\<close>, the token the screens hand to the gateway.\<close>

definition current_token :: "auth_state \<Rightarrow> string" where
  "current_token a = (case user a of None \<Rightarrow> [] | Some u \<Rightarrow> token u)"

section \<open>Bulk delete on the products screen\<close>

text \<open>
  Of a product the handler reads the \<open>sku\<close> and the optional \<open>media_gallery_entries\<close>, of
  an entry its \<open>id\<close>.
\<close>

record media_entry =
  entry_id :: nat
  entry_file :: string

record Product =
  sku :: string
  product_name :: string
  media_gallery_entries :: "media_entry list option"

text \<open>
  The screen's state: \<open>selectedProducts\<close> is a \<open>Set\<close>, iterated in insertion order;
  \<open>alerts\<close> are the \<open>Alert.alert(title, text)\<close> calls so far and \<open>refreshes\<close> counts the
  calls of \<open>fetchProducts()\<close> the handler starts without awaiting them.
\<close>

record products_screen =
  products :: "Product list"
  selectedProducts :: "string list"
  isSelectionMode :: bool
  loading :: bool
  alerts :: "(string \<times> string) list"
  refreshes :: nat

text \<open>The inner loop: \<open>for (const image of product.media_gallery_entries)\<close>.\<close>

fun delete_images ::
  "'i remote \<Rightarrow> string \<Rightarrow> string \<Rightarrow> media_entry list \<Rightarrow> world \<Rightarrow> (js_error + unit) \<times> world" where
  "delete_images remote t k [] w = (Inr (), w)"
| "delete_images remote t k (img # rest) w =
     (case deleteProductImage remote t k (entry_id img) w of
        (Inl e, w') \<Rightarrow> (Inl e, w')
      | (Inr _, w') \<Rightarrow> delete_images remote t k rest w')"

text \<open>\<open>product?.media_gallery_entries\<close> for \<open>product = products.find(p => p.sku === sku)\<close>.\<close>

definition entries_of :: "Product list \<Rightarrow> string \<Rightarrow> media_entry list option" where
  "entries_of ps k =
     (case find (\<lambda>p. sku p = k) ps of None \<Rightarrow> None | Some p \<Rightarrow> media_gallery_entries p)"

text \<open>The body of the outer loop, for one selected sku.\<close>

definition delete_one ::
  "'i remote \<Rightarrow> string \<Rightarrow> Product list \<Rightarrow> string \<Rightarrow> world \<Rightarrow> (js_error + unit) \<times> world" where
  "delete_one remote t ps k w =
     (case entries_of ps k of
        Some entries \<Rightarrow>
          (case delete_images remote t k entries w of
             (Inl e, w') \<Rightarrow> (Inl e, w')
           | (Inr _, w') \<Rightarrow> deleteProduct remote t k w')
      | None \<Rightarrow> deleteProduct remote t k w)"

text \<open>The outer loop: \<open>for (const sku of selectedProducts)\<close>.\<close>

fun delete_loop ::
  "'i remote \<Rightarrow> string \<Rightarrow> Product list \<Rightarrow> string list \<Rightarrow> world \<Rightarrow> (js_error + unit) \<times> world" where
  "delete_loop remote t ps [] w = (Inr (), w)"
| "delete_loop remote t ps (k # rest) w =
     (case delete_one remote t ps k w of
        (Inl e, w') \<Rightarrow> (Inl e, w')
      | (Inr _, w') \<Rightarrow> delete_loop remote t ps rest w')"

text \<open>
  The handler of the confirmation's Delete button: one \<open>try\<close> around both loops, one
  \<open>catch\<close> that shows the error, and \<open>finally\<close> the loading flag is cleared.
\<close>

definition handleDeleteSelected ::
  "'i remote \<Rightarrow> auth_state \<Rightarrow> products_screen \<Rightarrow> world \<Rightarrow> products_screen \<times> world" where
  "handleDeleteSelected remote a s w =
     (let s1 = s\<lparr>loading := True\<rparr>
      in case delete_loop remote (current_token a) (products s1) (selectedProducts s1) w of
           (Inr _, w') \<Rightarrow>
             (s1\<lparr>selectedProducts := [], isSelectionMode := False,
                  refreshes := Suc (refreshes s1),
                  alerts := alerts s1 @ [(''Success'', ''Products deleted successfully'')],
                  loading := False\<rparr>, w')
         | (Inl e, w') \<Rightarrow>
             (s1\<lparr>alerts := alerts s1 @ [(''Error'', message e)], loading := False\<rparr>, w'))"

text \<open>
  The requests one item stands for: the delete of each of its media entries, then the
  delete of the product.
\<close>

definition steps_of :: "string \<Rightarrow> Product list \<Rightarrow> string \<Rightarrow> http_request list" where
  "steps_of t ps k =
     map (\<lambda>img. deleteProductImage_request t k (entry_id img))
       (case entries_of ps k of None \<Rightarrow> [] | Some entries \<Rightarrow> entries)
     @ [deleteProduct_request t k]"

section \<open>Category search on the categories screen\<close>

text \<open>
  A JavaScript string is a sequence of code units; the filter reads them only through
  \<open>toLowerCase\<close> and \<open>includes\<close>, so the type \<open>'c\<close> of a code unit is left open.
\<close>

datatype 'c Category =
  Category (category_id: nat) (parent_id: nat) (category_name: "'c list") (is_active: bool)
    (category_children: "'c Category list option")

text \<open>\<open>String.prototype.includes\<close>: the needle starts at some position of the text.\<close>

fun string_includes :: "'c list \<Rightarrow> 'c list \<Rightarrow> bool" where
  "string_includes [] needle = (needle = [])"
| "string_includes (c # cs) needle = (prefix needle (c # cs) \<or> string_includes cs needle)"

text \<open>
  \<open>String.prototype.toLowerCase\<close> belongs to the JavaScript library, not to the
  repository: it is the parameter \<open>toLowerCase\<close> of \<open>matchesSearch\<close> and
  \<open>filteredCategories\<close>, and nothing is assumed of it (it may change the length of a
  string, and it need not work letter by letter).
\<close>

fun matchesSearch :: "('c list \<Rightarrow> 'c list) \<Rightarrow> 'c list \<Rightarrow> 'c Category \<Rightarrow> bool" where
  "matchesSearch toLowerCase searchLower (Category i p n a ch) =
     (let matches = string_includes (toLowerCase n) searchLower
      in case ch of
           Some cs \<Rightarrow> matches \<or> list_ex (matchesSearch toLowerCase searchLower) cs
         | None \<Rightarrow> matches)"

definition filteredCategories ::
  "('c list \<Rightarrow> 'c list) \<Rightarrow> 'c Category list \<Rightarrow> 'c list \<Rightarrow> 'c Category list" where
  "filteredCategories toLowerCase categories searchQuery =
     filter (\<lambda>category. matchesSearch toLowerCase (toLowerCase searchQuery) category) categories"

text \<open>
  The words of the specification. A name contains the query as a case-insensitive
  substring when, both being lower-cased, the query occurs in the name: the lower-cased
  name is some text, then the lower-cased query, then some text. The nodes of a category
  are the category and all its descendants.
\<close>

definition contains_ci :: "('c list \<Rightarrow> 'c list) \<Rightarrow> 'c list \<Rightarrow> 'c list \<Rightarrow> bool" where
  "contains_ci toLowerCase name query =
     (\<exists>before after. toLowerCase name = before @ toLowerCase query @ after)"

fun nodes :: "'c Category \<Rightarrow> 'c Category list" where
  "nodes (Category i p n a ch) =
     Category i p n a ch # (case ch of None \<Rightarrow> [] | Some cs \<Rightarrow> concat (map nodes cs))"

definition spec_retained :: "('c list \<Rightarrow> 'c list) \<Rightarrow> 'c list \<Rightarrow> 'c Category \<Rightarrow> bool" where
  "spec_retained toLowerCase query c =
     list_ex (\<lambda>n. contains_ci toLowerCase (category_name n) query) (nodes c)"

text \<open>
  Where lower-casing works code unit by code unit, through a function \<open>f\<close>, the same is
  said by: some stretch of the name equals the query up to \<open>f\<close>.
\<close>

definition same_up_to_case :: "('c \<Rightarrow> 'c) \<Rightarrow> 'c list \<Rightarrow> 'c list \<Rightarrow> bool" where
  "same_up_to_case f s t = list_all2 (\<lambda>a b. f a = f b) s t"

section \<open>Auxiliary notions for the statements\<close>

text \<open>JavaScript's \<open>x >= y\<close> for a finite \<open>y\<close>: false on \<open>NaN\<close>.\<close>

fun js_ge :: "jsnum \<Rightarrow> real \<Rightarrow> bool" where
  "js_ge (Num x) y = (y \<le> x)"
| "js_ge NaN y = False"
| "js_ge Infinity y = True"

text \<open>The four list operations, \<open>getProducts\<close> with its filters fixed.\<close>

definition list_operations ::
  "ProductFilters option \<Rightarrow>
   ('i remote \<Rightarrow> string \<Rightarrow> nat \<Rightarrow> nat \<Rightarrow> world \<Rightarrow> (js_error + 'i page_result) \<times> world) list" where
  "list_operations fs =
     [getOrders, (\<lambda>remote t page page_size. getProducts remote t page page_size fs),
      getCustomers, getCategories]"

text \<open>A world in which nothing has happened yet, and a platform with one fixed answer.\<close>

definition world0 :: world where
  "world0 = \<lparr>storage = Map.empty, storage_available = True, emitted = [], requests = [],
             navigations = [], console_errors = []\<rparr>"

definition answering :: "'i axios_outcome \<Rightarrow> 'i remote" where
  "answering outcome = (\<lambda>history req. outcome)"

definition listing :: "'i list \<Rightarrow> nat option \<Rightarrow> 'i response_data" where
  "listing xs n = \<lparr>items = Some xs, children_data = None, total_count = n, token_text = None\<rparr>"

definition http_error :: "nat \<Rightarrow> js_error" where
  "http_error code =
     \<lparr>message = ''Request failed with status code '' @ string_of_nat code,
      response = Some \<lparr>status = code, data_message = None\<rparr>, request = True\<rparr>"

text \<open>
  The operations a screen can start, each with its arguments but the token, which is the
  session's. A run performs them one after the other; after each one the provider's
  listener receives the events the operation emitted.
\<close>

datatype operation =
    Login string string
  | Logout
  | CheckAuthState
  | GetOrders nat nat
  | GetOrderDetails string
  | GetProducts nat nat "ProductFilters option"
  | GetProductDetails string
  | GetCustomers nat nat
  | GetCustomerDetails string
  | GetCategories nat nat
  | GetCategoryDetails string
  | CreateProduct string
  | UploadProductImage string string nat string
  | DeleteProduct string
  | DeleteProductImage string nat
  | UpdateProduct string string
  | DeleteCategory nat

definition listener :: "world \<Rightarrow> auth_state \<Rightarrow> 'r \<times> world \<Rightarrow> auth_state \<times> world" where
  "listener w a rw = deliver (drop (length (emitted w)) (emitted (snd rw))) (a, snd rw)"

fun step :: "'i remote \<Rightarrow> (string \<Rightarrow> User option) \<Rightarrow> operation \<Rightarrow> auth_state \<times> world \<Rightarrow> auth_state \<times> world" where
  "step remote parse (Login name password) (a, w) = snd (handleLogin remote name password (a, w))"
| "step remote parse Logout (a, w) = handleLogout (a, w)"
| "step remote parse CheckAuthState (a, w) = checkAuthState parse (a, w)"
| "step remote parse (GetOrders page n) (a, w) =
     listener w a (getOrders remote (current_token a) page n w)"
| "step remote parse (GetOrderDetails i) (a, w) =
     listener w a (getOrderDetails remote (current_token a) i w)"
| "step remote parse (GetProducts page n fs) (a, w) =
     listener w a (getProducts remote (current_token a) page n fs w)"
| "step remote parse (GetProductDetails k) (a, w) =
     listener w a (getProductDetails remote (current_token a) k w)"
| "step remote parse (GetCustomers page n) (a, w) =
     listener w a (getCustomers remote (current_token a) page n w)"
| "step remote parse (GetCustomerDetails i) (a, w) =
     listener w a (getCustomerDetails remote (current_token a) i w)"
| "step remote parse (GetCategories page n) (a, w) =
     listener w a (getCategories remote (current_token a) page n w)"
| "step remote parse (GetCategoryDetails i) (a, w) =
     listener w a (getCategoryDetails remote (current_token a) i w)"
| "step remote parse (CreateProduct d) (a, w) =
     listener w a (createProduct remote (current_token a) d w)"
| "step remote parse (UploadProductImage k d pos ty) (a, w) =
     listener w a (uploadProductImage remote (current_token a) k d pos ty w)"
| "step remote parse (DeleteProduct k) (a, w) =
     listener w a (deleteProduct remote (current_token a) k w)"
| "step remote parse (DeleteProductImage k i) (a, w) =
     listener w a (deleteProductImage remote (current_token a) k i w)"
| "step remote parse (UpdateProduct k d) (a, w) =
     listener w a (updateProduct remote (current_token a) k d w)"
| "step remote parse (DeleteCategory i) (a, w) =
     listener w a (deleteCategory remote i w)"

fun run :: "'i remote \<Rightarrow> (string \<Rightarrow> User option) \<Rightarrow> operation list \<Rightarrow> auth_state \<times> world \<Rightarrow> auth_state \<times> world" where
  "run remote parse [] aw = aw"
| "run remote parse (x # xs) aw = run remote parse xs (step remote parse x aw)"

definition logged_out :: auth_state where
  "logged_out = \<lparr>user = None, isAuthenticated = False\<rparr>"

text \<open>An answer of the category endpoint: children, no total count, and stray items.\<close>

definition root_answer :: "nat response_data" where
  "root_answer = \<lparr>items = Some [7], children_data = Some [3, 4], total_count = None, token_text = None\<rparr>"

text \<open>The operations of the gateway that go through \<open>axios\<close> and \<open>handleAuthError\<close>.\<close>

fun is_axios_operation :: "operation \<Rightarrow> bool" where
  "is_axios_operation (Login name password) = False"
| "is_axios_operation Logout = False"
| "is_axios_operation CheckAuthState = False"
| "is_axios_operation (DeleteCategory i) = False"
| "is_axios_operation x = True"

definition unauthorized :: "nat remote" where
  "unauthorized = answering (Rejected (http_error 401))"

definition no_parse :: "string \<Rightarrow> User option" where
  "no_parse s = None"

definition logged_in :: auth_state where
  "logged_in = \<lparr>user = Some \<lparr>username = ''admin'', token = ''tok''\<rparr>, isAuthenticated = True\<rparr>"

text \<open>Concrete inputs: a filter for enabled products matching \<open>lamp\<close>, and a small category tree.\<close>

definition lamp_filters :: ProductFilters where
  "lamp_filters = \<lparr>status_filter = Some 1, search = Some ''lamp''\<rparr>"

definition shoes :: "char Category" where
  "shoes = Category 12 11 ''Running Shoes'' True (Some [])"

definition men :: "char Category" where
  "men = Category 11 10 ''Men'' True (Some [shoes])"

definition clothing :: "char Category" where
  "clothing = Category 10 2 ''Clothing'' True (Some [men])"

definition toys :: "char Category" where
  "toys = Category 20 2 ''Toys'' False None"

text \<open>
  Two lower-casing functions to run the filter with: one on bytes that knows the letters
  \<open>A\<close> to \<open>Z\<close> (65 to 90), and one on code units given as numbers that knows the capital
  letters of Latin-1 as well (192 to 222 but the multiplication sign 215), as JavaScript
  does. With them, two categories in code units: \<open>Ecole\<close> with an acute accent on its
  capital \<open>E\<close> (201), and \<open>Cafe\<close> with an acute accent on its \<open>e\<close> (233).
\<close>

definition ascii_lower :: "char \<Rightarrow> char" where
  "ascii_lower c =
     (if 65 \<le> (of_char c :: nat) \<and> (of_char c :: nat) \<le> 90 then char_of ((of_char c :: nat) + 32) else c)"

definition latin1_lower :: "nat \<Rightarrow> nat" where
  "latin1_lower c =
     (if (65 \<le> c \<and> c \<le> 90) \<or> (192 \<le> c \<and> c \<le> 222 \<and> c \<noteq> 215) then c + 32 else c)"

definition ecole :: "nat Category" where
  "ecole = Category 30 2 [201, 99, 111, 108, 101] True None"

definition cafe :: "nat Category" where
  "cafe = Category 31 2 [67, 97, 102, 233] True (Some [])"

text \<open>
  A world after a login as \<open>admin\<close>, a world whose store holds \<open>abc123\<close> under the key
  \<open>token\<close>, and a platform that issues the token \<open>abc123\<close> and rejects everything else
  with 403.
\<close>

definition world_in :: world where
  "world_in =
     world0\<lparr>storage := [''user'' \<mapsto> JSON_stringify \<lparr>username = ''admin'', token = ''tok''\<rparr>]\<rparr>"

definition world_tok :: world where
  "world_tok = world0\<lparr>storage := [''token'' \<mapsto> ''abc123'']\<rparr>"

definition token_issuer :: "nat remote" where
  "token_issuer history req =
     (if url req = BASE_URL @ ''/rest/V1/integration/admin/token''
      then Resolved \<lparr>items = None, children_data = None, total_count = None,
                      token_text = Some ''abc123''\<rparr>
      else Rejected (http_error 403))"

text \<open>
  Two products, \<open>A\<close> with one media entry and \<open>B\<close> with none, both selected; and a
  platform that answers 500 to the request with a given URL and accepts every other one.
\<close>

definition product_A :: Product where
  "product_A = \<lparr>sku = ''A'', product_name = ''Lamp'',
                 media_gallery_entries = Some [\<lparr>entry_id = 7, entry_file = ''/l/a/lamp.jpg''\<rparr>]\<rparr>"

definition product_B :: Product where
  "product_B = \<lparr>sku = ''B'', product_name = ''Desk'', media_gallery_entries = None\<rparr>"

definition screen_AB :: products_screen where
  "screen_AB = \<lparr>products = [product_A, product_B], selectedProducts = [''A'', ''B''],
                 isSelectionMode = True, loading = False, alerts = [], refreshes = 0\<rparr>"

definition failing_at :: "string \<Rightarrow> nat remote" where
  "failing_at bad history req =
     (if url req = bad then Rejected (http_error 500)
      else Resolved \<lparr>items = None, children_data = None, total_count = None, token_text = None\<rparr>)"

definition screen_A :: products_screen where
  "screen_A = screen_AB\<lparr>selectedProducts := [''A'']\<rparr>"

definition media_7 :: media_entry where
  "media_7 = \<lparr>entry_id = 7, entry_file = ''/l/a/lamp.jpg''\<rparr>"

section \<open>Paging\<close>

lemma paged_total_pages:
  assumes "total_count d = Some tc" and "1 \<le> ps"
  shows "total_pages (paged page ps d) = Num (of_int \<lceil>real tc / real ps\<rceil>)"
  using assms by (simp add: paged_def js_div_def)

lemma js_ge_ceiling:
  assumes "1 \<le> ps"
  shows "js_ge (Num (of_int \<lceil>real tc / real ps\<rceil>)) 1 \<longleftrightarrow> 1 \<le> tc"
proof -
  have "(1::int) \<le> \<lceil>real tc / real ps\<rceil> \<longleftrightarrow> 0 < real tc / real ps"
    by (simp add: less_ceiling_iff flip: zless_add1_eq)
  also have "\<dots> \<longleftrightarrow> 1 \<le> tc"
    using assms by (auto simp: zero_less_divide_iff)
  finally show ?thesis by simp
qed

lemma axios_call_resolved:
  "remote (requests w) req = Resolved d \<Longrightarrow>
   axios_call remote req m1 m2 w = (Inr d, w\<lparr>requests := requests w @ [req]\<rparr>)"
  by (simp add: axios_call_def send_def)

text \<open>
  Claim C1, as the code has it. When the platform answers a list operation (\<open>getOrders\<close>,
  \<open>getProducts\<close>, \<open>getCustomers\<close>, \<open>getCategories\<close>) with a total count \<open>tc\<close> and the
  requested page size is at least 1, the call succeeds and \<open>total_pages\<close> is the ceiling of
  \<open>tc / pageSize\<close>. That number is at least 1 exactly when \<open>tc\<close> is at least 1; for
  \<open>tc = 0\<close> it is 0.
\<close>

theorem total_pages_is_ceiling:
  assumes "\<forall>req. remote (requests w) req = Resolved d"
    and "total_count d = Some tc" and "1 \<le> ps"
  shows "\<forall>operation \<in> set (list_operations fs).
           \<exists>r w'. operation remote t page ps w = (Inr r, w') \<and>
                  total_pages r = Num (of_int \<lceil>real tc / real ps\<rceil>) \<and>
                  (js_ge (total_pages r) 1 \<longleftrightarrow> 1 \<le> tc) \<and>
                  (tc = 0 \<longrightarrow> total_pages r = Num 0)"
proof -
  have r: "\<And>req m1 m2. axios_call remote req m1 m2 w = (Inr d, w\<lparr>requests := requests w @ [req]\<rparr>)"
    using assms(1) by (simp add: axios_call_resolved)
  have p: "total_pages (paged page ps d) = Num (of_int \<lceil>real tc / real ps\<rceil>)"
    using assms by (simp add: paged_total_pages)
  have c: "Math_ceil (js_div (Some (or_zero (total_count d))) ps) = Num (of_int \<lceil>real tc / real ps\<rceil>)"
    using assms by (simp add: js_div_def or_zero_def)
  have g: "js_ge (Num (of_int \<lceil>real tc / real ps\<rceil>)) 1 \<longleftrightarrow> 1 \<le> tc"
    using assms(3) by (rule js_ge_ceiling)
  show ?thesis
    using p c g by (simp add: list_operations_def getOrders_def getProducts_def getCustomers_def getCategories_def r)
qed

text \<open>
  The scenario of the specification: 45 orders in pages of 20 are 3 pages.
\<close>

theorem total_pages_is_ceiling_witness:
  "(\<forall>req. answering (Resolved (listing [1::nat, 2] (Some 45))) (requests world0) req = Resolved (listing [1, 2] (Some 45))) \<and>
   total_count (listing [1::nat, 2] (Some 45)) = Some 45 \<and> (1::nat) \<le> 20 \<and>
   (\<exists>r w'. getOrders (answering (Resolved (listing [1::nat, 2] (Some 45)))) ''tok'' 1 20 world0 = (Inr r, w') \<and>
       total_pages r = Num 3)"
proof -
  have h1: "\<forall>req. answering (Resolved (listing [1::nat, 2] (Some 45))) (requests world0) req = Resolved (listing [1, 2] (Some 45))"
    by (simp add: answering_def)
  have h2: "total_count (listing [1::nat, 2] (Some 45)) = Some 45" by (simp add: listing_def)
  have h3: "(1::nat) \<le> 20" by simp
  have m: "getOrders \<in> set (list_operations None)" by (simp add: list_operations_def)
  have "\<forall>operation \<in> set (list_operations None).
           \<exists>r w'. operation (answering (Resolved (listing [1::nat, 2] (Some 45)))) ''tok'' 1 20 world0 = (Inr r, w') \<and>
                  total_pages r = Num (of_int \<lceil>real 45 / real 20\<rceil>) \<and>
                  (js_ge (total_pages r) 1 \<longleftrightarrow> 1 \<le> (45::nat)) \<and>
                  ((45::nat) = 0 \<longrightarrow> total_pages r = Num 0)"
    using h1 h2 h3
    by (rule total_pages_is_ceiling
          [where remote = "answering (Resolved (listing [1::nat, 2] (Some 45)))" and w = world0
             and d = "listing [1, 2] (Some 45)" and tc = 45 and ps = 20])
  with m have "\<exists>r w'. getOrders (answering (Resolved (listing [1::nat, 2] (Some 45)))) ''tok'' 1 20 world0 = (Inr r, w') \<and>
                  total_pages r = Num (of_int \<lceil>real 45 / real 20\<rceil>)"
    by blast
  then show ?thesis using h1 h2 by simp
qed

text \<open>
  With no orders at all the number of pages is 0, which is not at least 1.
\<close>

theorem total_pages_zero_counterexample:
  "fst (getOrders (answering (Resolved (listing ([]::nat list) (Some 0)))) ''tok'' 1 20 world0) =
     Inr \<lparr>result_items = Some [], result_total_count = Some 0, current_page = 1, total_pages = Num 0\<rparr> \<and>
   \<not> js_ge (Num 0) 1"
  by (simp add: getOrders_def axios_call_def send_def answering_def listing_def paged_def js_div_def)

section \<open>The category list\<close>

text \<open>
  Claim C10. A successful \<open>getCategories\<close> call (page size at least 1, as the data model
  has it) returns as its items the \<open>children_data\<close> of the platform's answer, whatever
  its \<open>items\<close> field holds; and when the answer carries no \<open>total_count\<close>, the call
  still succeeds, with total count 0 and 0 pages.
\<close>

theorem getCategories_children_and_absent_total:
  assumes "\<forall>req. remote (requests w) req = Resolved d" and "1 \<le> ps"
  shows "\<exists>r w'. getCategories remote t page ps w = (Inr r, w') \<and>
           result_items r = children_data d \<and>
           (total_count d = None \<longrightarrow> result_total_count r = Some 0 \<and> total_pages r = Num 0)"
  using assms by (simp add: getCategories_def axios_call_resolved js_div_def or_zero_def)

text \<open>
  A root category with children \<open>[3, 4]\<close>, stray items \<open>[7]\<close> and no total count: the
  call returns the children, total count 0 and 0 pages.
\<close>

theorem getCategories_children_and_absent_total_witness:
  "(\<forall>req. answering (Resolved root_answer) (requests world0) req = Resolved root_answer) \<and>
   (1::nat) \<le> 20 \<and> total_count root_answer = None \<and>
   (\<exists>w'. getCategories (answering (Resolved root_answer)) ''tok'' 1 20 world0 =
      (Inr \<lparr>result_items = Some [3, 4], result_total_count = Some 0, current_page = 1,
            total_pages = Num 0\<rparr>, w'))"
proof -
  have h1: "\<forall>req. answering (Resolved root_answer) (requests world0) req = Resolved root_answer"
    by (simp add: answering_def)
  have h2: "(1::nat) \<le> 20" by simp
  have h3: "total_count root_answer = None" by (simp add: root_answer_def)
  have "\<exists>r w'. getCategories (answering (Resolved root_answer)) ''tok'' 1 20 world0 = (Inr r, w') \<and>
           result_items r = children_data root_answer \<and>
           (total_count root_answer = None \<longrightarrow> result_total_count r = Some 0 \<and> total_pages r = Num 0)"
    using h1 h2
    by (rule getCategories_children_and_absent_total
          [where remote = "answering (Resolved root_answer)" and w = world0 and d = root_answer and ps = 20])
  then obtain r w' where
    r: "getCategories (answering (Resolved root_answer)) ''tok'' 1 20 world0 = (Inr r, w')"
      "result_items r = Some [3, 4]" "result_total_count r = Some 0" "total_pages r = Num 0"
    using h3 by (auto simp: root_answer_def)
  have "current_page r = 1"
    using r(1) by (auto simp: getCategories_def axios_call_def send_def split: prod.splits axios_outcome.splits sum.splits)
  with r have "r = \<lparr>result_items = Some [3, 4], result_total_count = Some 0, current_page = 1,
            total_pages = Num 0\<rparr>" by (cases r) simp
  with r(1) h1 h2 h3 show ?thesis by blast
qed

text \<open>
  The bound on the page size is needed: with page size 0 the quotient \<open>0 / 0\<close> is \<open>NaN\<close>.
\<close>

lemma getCategories_page_size_zero:
  assumes "\<forall>req. remote (requests w) req = Resolved d" and "total_count d = None"
  shows "\<exists>r w'. getCategories remote t page 0 w = (Inr r, w') \<and> total_pages r = NaN"
  using assms by (simp add: getCategories_def axios_call_resolved js_div_def or_zero_def)

section \<open>Session expiry\<close>

text \<open>
  In every world, whatever was emitted before and however far an earlier handler got,
  \<open>handleAuthError\<close> answers a 401 with one more \<open>logout\<close> event. And since it throws in
  both of its branches, the rest of the \<open>catch\<close> block is never reached: what the
  operation throws is what \<open>handleAuthError\<close> throws.
\<close>

lemma handleAuthError_401_emits:
  "map_option status (response e) = Some 401 \<Longrightarrow>
   handleAuthError e w = (Inl session_expired, w\<lparr>emitted := emitted w @ [''logout'']\<rparr>)"
  by (simp add: handleAuthError_def EventRegister_emit_def)

lemma catch_block_rethrows:
  "catch_block m1 m2 e w =
     (if map_option status (response e) = Some 401
      then (Inl session_expired, w\<lparr>emitted := emitted w @ [''logout'']\<rparr>)
      else (Inl e, w))"
  by (cases "map_option status (response e) = Some 401")
    (auto simp: catch_block_def handleAuthError_def EventRegister_emit_def)

lemma axios_call_401:
  assumes "remote (requests w) req = Rejected e" and "map_option status (response e) = Some 401"
  shows "axios_call remote req m1 m2 w =
           (Inl session_expired, w\<lparr>requests := requests w @ [req], emitted := emitted w @ [''logout'']\<rparr>)"
  using assms
  by (simp add: axios_call_def send_def catch_block_def handleAuthError_def EventRegister_emit_def)

lemma listener_one_logout:
  "listener w a (r, w\<lparr>requests := q, emitted := emitted w @ [''logout'']\<rparr>) =
     handleLogout (a, w\<lparr>requests := q, emitted := emitted w @ [''logout'']\<rparr>)"
  by (simp add: listener_def)

lemma step_401:
  assumes "\<forall>h req. remote h req = Rejected e" and "map_option status (response e) = Some 401"
    and "is_axios_operation x"
  shows "\<exists>q. step remote parse x (a, w) =
               handleLogout (a, w\<lparr>requests := q, emitted := emitted w @ [''logout'']\<rparr>)"
proof -
  have c: "\<And>req m1 m2. axios_call remote req m1 m2 w =
           (Inl session_expired, w\<lparr>requests := requests w @ [req], emitted := emitted w @ [''logout'']\<rparr>)"
    using assms(1,2) by (simp add: axios_call_401)
  show ?thesis
    using assms(3)
    by (cases x)
      (auto simp add: c listener_one_logout discard_def getOrders_def getOrderDetails_def
        getProducts_def getProductDetails_def getCustomers_def getCustomerDetails_def
        getCategories_def getCategoryDetails_def createProduct_def uploadProductImage_def
        deleteProduct_def deleteProductImage_def updateProduct_def)
qed

lemma handleLogout_emitted: "emitted (snd (handleLogout (a, w))) = emitted w"
  by (simp add: handleLogout_def AsyncStorage_removeItem_def)

lemma handleLogout_available: "storage_available (snd (handleLogout (a, w))) = storage_available w"
  by (simp add: handleLogout_def AsyncStorage_removeItem_def)

lemma handleLogout_navigations:
  "storage_available w \<Longrightarrow> navigations (snd (handleLogout (a, w))) = navigations w @ [''/'']"
  by (simp add: handleLogout_def AsyncStorage_removeItem_def)

text \<open>
  Claim C6, as the code has it. Nothing in \<open>handleAuthError\<close> or in the provider remembers
  that the session was already invalidated: every gateway call that receives a 401 emits a
  \<open>logout\<close> event of its own, and the provider's listener runs \<open>handleLogout\<close> once for
  each. So \<open>n\<close> calls answered with 401 give \<open>n\<close> broadcasts and, while the store works,
  \<open>n\<close> navigations to the root. (The calls are performed one after the other; on the single
  JavaScript thread the responses of calls in flight are handled one after the other as
  well, and \<open>handleAuthError\<close> consults no state, so their order does not matter.)
\<close>

theorem logout_emitted_per_401:
  assumes "\<forall>h req. remote h req = Rejected e" and "map_option status (response e) = Some 401"
    and "list_all is_axios_operation xs"
  shows "emitted (snd (run remote parse xs (a, w))) = emitted w @ replicate (length xs) ''logout'' \<and>
         (storage_available w \<longrightarrow>
            navigations (snd (run remote parse xs (a, w))) = navigations w @ replicate (length xs) ''/'')"
  using assms(3)
proof (induction xs arbitrary: a w)
  case Nil
  then show ?case by simp
next
  case (Cons x xs)
  from Cons.prems have x: "is_axios_operation x" and xs: "list_all is_axios_operation xs"
    by simp_all
  obtain q where s: "step remote parse x (a, w) =
      handleLogout (a, w\<lparr>requests := q, emitted := emitted w @ [''logout'']\<rparr>)"
    using step_401 [OF assms(1,2) x] by blast
  obtain a1 w1 where h: "handleLogout (a, w\<lparr>requests := q, emitted := emitted w @ [''logout'']\<rparr>) = (a1, w1)"
    by (cases "handleLogout (a, w\<lparr>requests := q, emitted := emitted w @ [''logout'']\<rparr>)")
  have aw: "step remote parse x (a, w) = (a1, w1)"
    using s h by simp
  have e: "emitted w1 = emitted w @ [''logout'']"
    using h handleLogout_emitted [of a "w\<lparr>requests := q, emitted := emitted w @ [''logout'']\<rparr>"]
    by simp
  have v: "storage_available w1 = storage_available w"
    using h handleLogout_available [of a "w\<lparr>requests := q, emitted := emitted w @ [''logout'']\<rparr>"]
    by simp
  have n: "storage_available w \<Longrightarrow> navigations w1 = navigations w @ [''/'']"
    using h handleLogout_navigations [of "w\<lparr>requests := q, emitted := emitted w @ [''logout'']\<rparr>" a]
    by simp
  show ?case
    using Cons.IH [OF xs, of a1 w1] aw e v n
    by (simp add: replicate_append_same)
qed

text \<open>Two calls, both answered with 401: two broadcasts and two navigations.\<close>

theorem logout_emitted_per_401_witness:
  "(\<forall>h req. unauthorized h req = Rejected (http_error 401)) \<and>
   map_option status (response (http_error 401)) = Some 401 \<and>
   list_all is_axios_operation [GetOrders 1 20, GetProductDetails ''sku-1''] \<and>
   storage_available world0 \<and>
   emitted (snd (run unauthorized no_parse [GetOrders 1 20, GetProductDetails ''sku-1''] (logged_in, world0)))
     = [''logout'', ''logout''] \<and>
   navigations (snd (run unauthorized no_parse [GetOrders 1 20, GetProductDetails ''sku-1''] (logged_in, world0)))
     = [''/'', ''/'']"
proof -
  have h1: "\<forall>h req. unauthorized h req = Rejected (http_error 401)"
    by (simp add: unauthorized_def answering_def)
  have h2: "map_option status (response (http_error 401)) = Some 401"
    by (simp add: http_error_def)
  have h3: "list_all is_axios_operation [GetOrders 1 20, GetProductDetails ''sku-1'']"
    by simp
  have h4: "storage_available world0" by (simp add: world0_def)
  have e0: "emitted world0 = []" "navigations world0 = []" by (simp_all add: world0_def)
  have r: "replicate (length [GetOrders 1 20, GetProductDetails ''sku-1'']) x = [x, x]" for x :: string
    by (simp add: numeral_2_eq_2)
  show ?thesis
    using logout_emitted_per_401 [OF h1 h2 h3, of no_parse logged_in world0] h1 h2 h3 h4
    unfolding e0 r append_Nil by blast
qed

text \<open>
  The two calls made directly on the gateway: after the second 401 the event log holds two
  \<open>logout\<close> events, not one.
\<close>

theorem two_401_two_logouts_counterexample:
  "emitted (snd (getProductDetails unauthorized ''tok'' ''sku-1''
       (snd (getOrders unauthorized ''tok'' 1 20 world0)))) = [''logout'', ''logout'']"
  by (simp add: getProductDetails_def getOrders_def axios_call_def send_def catch_block_def
      handleAuthError_def EventRegister_emit_def unauthorized_def answering_def http_error_def world0_def)

subsection \<open>\<open>deleteCategory\<close> and the 401\<close>

text \<open>
  The thirteen axios operations answer a 401 with the \<open>logout\<close> event and the
  session-expired error.
\<close>

lemma axios_operations_401:
  assumes "\<forall>req. remote (requests w) req = Rejected e" and "map_option status (response e) = Some 401"
  shows "\<forall>r \<in> {fst (getOrders remote t page n w), fst (getProducts remote t page n fs w),
                 fst (getCustomers remote t page n w), fst (getCategories remote t page n w)}.
           r = Inl session_expired"
    and "\<forall>r \<in> {fst (getOrderDetails remote t i w), fst (getProductDetails remote t i w),
                 fst (getCustomerDetails remote t i w), fst (getCategoryDetails remote t i w),
                 fst (createProduct remote t d w), fst (uploadProductImage remote t k d pos ty w),
                 fst (updateProduct remote t k d w)}.
           r = Inl session_expired"
    and "\<forall>r \<in> {fst (deleteProduct remote t k w), fst (deleteProductImage remote t k j w)}.
           r = Inl session_expired"
    and "\<forall>w' \<in> {snd (getOrders remote t page n w), snd (getProducts remote t page n fs w),
                 snd (getCustomers remote t page n w), snd (getCategories remote t page n w),
                 snd (getOrderDetails remote t i w), snd (getProductDetails remote t i w),
                 snd (getCustomerDetails remote t i w), snd (getCategoryDetails remote t i w),
                 snd (createProduct remote t d w), snd (uploadProductImage remote t k d pos ty w),
                 snd (updateProduct remote t k d w),
                 snd (deleteProduct remote t k w), snd (deleteProductImage remote t k j w)}.
           emitted w' = emitted w @ [''logout'']"
proof -
  have c: "\<And>req m1 m2. axios_call remote req m1 m2 w =
           (Inl session_expired, w\<lparr>requests := requests w @ [req], emitted := emitted w @ [''logout'']\<rparr>)"
    using assms by (simp add: axios_call_401)
  show "\<forall>r \<in> {fst (getOrders remote t page n w), fst (getProducts remote t page n fs w),
                 fst (getCustomers remote t page n w), fst (getCategories remote t page n w)}.
           r = Inl session_expired"
    by (simp add: c getOrders_def getProducts_def getCustomers_def getCategories_def)
  show "\<forall>r \<in> {fst (getOrderDetails remote t i w), fst (getProductDetails remote t i w),
                 fst (getCustomerDetails remote t i w), fst (getCategoryDetails remote t i w),
                 fst (createProduct remote t d w), fst (uploadProductImage remote t k d pos ty w),
                 fst (updateProduct remote t k d w)}.
           r = Inl session_expired"
    by (simp add: c getOrderDetails_def getProductDetails_def getCustomerDetails_def
        getCategoryDetails_def createProduct_def uploadProductImage_def updateProduct_def)
  show "\<forall>r \<in> {fst (deleteProduct remote t k w), fst (deleteProductImage remote t k j w)}.
           r = Inl session_expired"
    by (simp add: c deleteProduct_def deleteProductImage_def discard_def)
  show "\<forall>w' \<in> {snd (getOrders remote t page n w), snd (getProducts remote t page n fs w),
                 snd (getCustomers remote t page n w), snd (getCategories remote t page n w),
                 snd (getOrderDetails remote t i w), snd (getProductDetails remote t i w),
                 snd (getCustomerDetails remote t i w), snd (getCategoryDetails remote t i w),
                 snd (createProduct remote t d w), snd (uploadProductImage remote t k d pos ty w),
                 snd (updateProduct remote t k d w),
                 snd (deleteProduct remote t k w), snd (deleteProductImage remote t k j w)}.
           emitted w' = emitted w @ [''logout'']"
    by (simp add: c getOrders_def getProducts_def getCustomers_def getCategories_def
        getOrderDetails_def getProductDetails_def getCustomerDetails_def
        getCategoryDetails_def createProduct_def uploadProductImage_def updateProduct_def
        deleteProduct_def deleteProductImage_def discard_def)
qed

text \<open>
  \<open>deleteCategory\<close> does not: it uses \<open>fetch\<close>, never calls \<open>handleAuthError\<close>, and answers
  every status outside 2xx, 401 included, with the same error and without an event.
\<close>

lemma deleteCategory_no_logout:
  assumes "remote (requests w) (deleteCategory_request (storage w ''token'') i) = Rejected e"
    and "map_option status (response e) = Some 401" and "storage_available w"
  shows "deleteCategory remote i w =
           (Inl (new_Error ''Failed to delete category''),
            w\<lparr>requests := requests w @ [deleteCategory_request (storage w ''token'') i]\<rparr>)"
  using assms
  by (auto simp: deleteCategory_def AsyncStorage_getItem_def fetch_def send_def)

text \<open>
  Claim C2 at \<open>deleteCategory\<close>. The claim asks every gateway operation, \<open>deleteCategory\<close>
  included, to answer a 401 with the \<open>logout\<close> event and the session-expired error. For
  the category with id 5, on a platform that answers 401, \<open>deleteCategory\<close> fails with
  \<open>Failed to delete category\<close>, emits no event, and its error is not the session-expired
  one.
\<close>

theorem deleteCategory_401_keeps_session:
  "deleteCategory unauthorized 5 world0 =
     (Inl (new_Error ''Failed to delete category''),
      world0\<lparr>requests := [deleteCategory_request None 5]\<rparr>) \<and>
   emitted (snd (deleteCategory unauthorized 5 world0)) = [] \<and>
   fst (deleteCategory unauthorized 5 world0) \<noteq> Inl session_expired"
  by (simp add: deleteCategory_def AsyncStorage_getItem_def fetch_def send_def unauthorized_def
      answering_def http_error_def world0_def new_Error_def session_expired_def)

section \<open>The search criteria of \<open>getProducts\<close>\<close>

text \<open>The index at which the search predicates are pushed is that of an existing group.\<close>

lemma search_index_in_range:
  "search_index (status_step fs (default_criteria page n f d))
     < length (groups_or_empty (status_step fs (default_criteria page n f d)) @ [\<lparr>filters = []\<rparr>])"
  by (simp add: search_index_def groups_or_empty_def status_step_def default_criteria_def
      split: option.splits)

text \<open>
  Claim C5. When \<open>getProducts\<close> is given both a status filter (1 or 2, so not 0) and a
  non-empty search string, the search criteria it compiles hold exactly two filter groups:
  at index 0 a group with the single \<open>eq\<close> predicate on \<open>status\<close>, at index 1 a group with
  one \<open>like\<close> predicate for each of \<open>name\<close>, \<open>sku\<close>, \<open>description\<close> and \<open>eancode\<close>, in that
  order, each value being the search string between two \<open>%\<close>. These criteria are the
  \<open>params\<close> of the request the call issues.
\<close>

theorem getProducts_status_and_search_groups:
  assumes "status_filter fs = Some st" and "st \<noteq> 0" and "search fs = Some q" and "q \<noteq> []"
  shows "filterGroups (products_criteria page n (Some fs)) =
           Some [\<lparr>filters = [\<lparr>field = ''status'', filter_value = NumValue st, conditionType = ''eq''\<rparr>]\<rparr>,
                 \<lparr>filters =
                    [\<lparr>field = ''name'', filter_value = StrValue (''%'' @ q @ ''%''), conditionType = ''like''\<rparr>,
                     \<lparr>field = ''sku'', filter_value = StrValue (''%'' @ q @ ''%''), conditionType = ''like''\<rparr>,
                     \<lparr>field = ''description'', filter_value = StrValue (''%'' @ q @ ''%''), conditionType = ''like''\<rparr>,
                     \<lparr>field = ''eancode'', filter_value = StrValue (''%'' @ q @ ''%''), conditionType = ''like''\<rparr>]\<rparr>] \<and>
         (\<exists>req. requests (snd (getProducts remote t page n (Some fs) w)) = requests w @ [req] \<and>
                params req = Some (products_criteria page n (Some fs)))"
proof -
  have "filterGroups (products_criteria page n (Some fs)) =
           Some [\<lparr>filters = [\<lparr>field = ''status'', filter_value = NumValue st, conditionType = ''eq''\<rparr>]\<rparr>,
                 \<lparr>filters =
                    [\<lparr>field = ''name'', filter_value = StrValue (''%'' @ q @ ''%''), conditionType = ''like''\<rparr>,
                     \<lparr>field = ''sku'', filter_value = StrValue (''%'' @ q @ ''%''), conditionType = ''like''\<rparr>,
                     \<lparr>field = ''description'', filter_value = StrValue (''%'' @ q @ ''%''), conditionType = ''like''\<rparr>,
                     \<lparr>field = ''eancode'', filter_value = StrValue (''%'' @ q @ ''%''), conditionType = ''like''\<rparr>]\<rparr>]"
    using assms
    by (simp add: products_criteria_def status_step_def search_step_def
        default_criteria_def search_index_def groups_or_empty_def
        push_filter_def like_filter_def Let_def)
  moreover have "\<exists>req. requests (snd (getProducts remote t page n (Some fs) w)) = requests w @ [req] \<and>
                params req = Some (products_criteria page n (Some fs))"
    by (auto simp: getProducts_def axios_call_def send_def catch_block_def handleAuthError_def
        EventRegister_emit_def split: axios_outcome.splits)
  ultimately show ?thesis by blast
qed

text \<open>Enabled products matching \<open>lamp\<close>.\<close>

theorem getProducts_status_and_search_groups_witness:
  "status_filter lamp_filters = Some 1 \<and> (1::nat) \<noteq> 0 \<and> search lamp_filters = Some ''lamp'' \<and>
   ''lamp'' \<noteq> [] \<and>
   filterGroups (products_criteria 1 20 (Some lamp_filters)) =
     Some [\<lparr>filters = [\<lparr>field = ''status'', filter_value = NumValue 1, conditionType = ''eq''\<rparr>]\<rparr>,
           \<lparr>filters =
              [\<lparr>field = ''name'', filter_value = StrValue ''%lamp%'', conditionType = ''like''\<rparr>,
               \<lparr>field = ''sku'', filter_value = StrValue ''%lamp%'', conditionType = ''like''\<rparr>,
               \<lparr>field = ''description'', filter_value = StrValue ''%lamp%'', conditionType = ''like''\<rparr>,
               \<lparr>field = ''eancode'', filter_value = StrValue ''%lamp%'', conditionType = ''like''\<rparr>]\<rparr>]"
proof -
  have h1: "status_filter lamp_filters = Some 1" by (simp add: lamp_filters_def)
  have h2: "(1::nat) \<noteq> 0" by simp
  have h3: "search lamp_filters = Some ''lamp''" by (simp add: lamp_filters_def)
  have h4: "''lamp'' \<noteq> []" by simp
  show ?thesis
    using getProducts_status_and_search_groups
      [OF h1 h2 h3 h4, where page = 1 and n = 20 and remote = unauthorized and t = "''tok''" and w = world0]
      h1 h3
    by simp
qed

section \<open>The category filter\<close>

text \<open>
  \<open>includes\<close> finds a contiguous stretch, and \<open>matchesSearch\<close> holds of a category when
  some node of it matches.
\<close>

lemma string_includes_sublist: "string_includes hay needle \<longleftrightarrow> sublist needle hay"
  by (induction hay) (auto simp: sublist_Cons_right)

lemma includes_lower_contains_ci:
  "string_includes (toLowerCase name) (toLowerCase query) \<longleftrightarrow> contains_ci toLowerCase name query"
  by (simp add: string_includes_sublist sublist_def contains_ci_def)

lemma matchesSearch_nodes:
  "matchesSearch toLowerCase sl c \<longleftrightarrow>
     list_ex (\<lambda>n. string_includes (toLowerCase (category_name n)) sl) (nodes c)"
  by (induction c) (auto simp: list_ex_iff Let_def split: option.splits)

text \<open>
  For a lower-casing that works code unit by code unit, containment after lower-casing is
  the presence of a stretch of the name that equals the query up to the case of letters.
\<close>

lemma contains_ci_charwise:
  "contains_ci (map f) name query \<longleftrightarrow>
     (\<exists>before part after. name = before @ part @ after \<and> same_up_to_case f part query)"
proof
  assume "contains_ci (map f) name query"
  then obtain ps ss where "map f name = ps @ map f query @ ss"
    by (auto simp: contains_ci_def)
  then obtain b r where b: "name = b @ r" "map f query @ ss = map f r"
    by (auto simp: map_eq_append_conv)
  then obtain m a where m: "r = m @ a" "map f query = map f m"
    by (auto simp: append_eq_map_conv)
  have "list_all2 (=) (map f m) (map f query)"
    using m(2) by (simp add: list.rel_eq)
  then have "same_up_to_case f m query"
    by (simp add: same_up_to_case_def list.rel_map)
  with b(1) m(1) show "\<exists>before part after. name = before @ part @ after \<and> same_up_to_case f part query"
    by blast
next
  assume "\<exists>before part after. name = before @ part @ after \<and> same_up_to_case f part query"
  then obtain b m a where n: "name = b @ m @ a" and "same_up_to_case f m query"
    by blast
  then have "list_all2 (=) (map f m) (map f query)"
    by (simp add: same_up_to_case_def list.rel_map)
  then have "map f m = map f query"
    by (simp add: list.rel_eq)
  with n have "map f name = map f b @ map f query @ map f a"
    by simp
  then show "contains_ci (map f) name query"
    unfolding contains_ci_def by blast
qed

text \<open>
  Claim C7. Whatever \<open>toLowerCase\<close> does, for every loaded list of top-level categories
  and every query the filter is total and returns, in their order and unchanged (each with
  its whole subtree), exactly the top-level categories of which some node, the category
  itself or a descendant at any depth, has a name containing the query as a
  case-insensitive substring. So a match in a grandchild alone keeps the top-level ancestor
  with the chain down to that grandchild, and a query found in no node gives the empty
  list.
\<close>

theorem filteredCategories_retains_matching_subtrees:
  "filteredCategories toLowerCase categories query =
     filter (spec_retained toLowerCase query) categories"
  by (simp add: filteredCategories_def spec_retained_def [abs_def] matchesSearch_nodes
      includes_lower_contains_ci)

text \<open>
  \<open>SHOE\<close> matches only \<open>Running Shoes\<close>, a grandchild of \<open>Clothing\<close>: the result is
  \<open>Clothing\<close> with its subtree. \<open>zzz\<close> matches nothing: the result is empty. And with the
  Latin-1 lower-casing, the query that is the small \<open>e\<close> with an acute accent (233) keeps
  both accented categories, the one with the capital letter included, and the query
  \<open>CAFE\<close> with the accented capital (201) keeps the category with the small one.
\<close>

theorem filteredCategories_retains_matching_subtrees_witness:
  "filter (spec_retained (map ascii_lower) ''SHOE'') [clothing, toys] = [clothing] \<and>
   filter (spec_retained (map ascii_lower) ''zzz'') [clothing, toys] = [] \<and>
   filter (spec_retained (map latin1_lower) [233]) [ecole, cafe] = [ecole, cafe] \<and>
   filter (spec_retained (map latin1_lower) [67, 65, 70, 201]) [ecole, cafe] = [cafe]"
proof -
  have "filter (spec_retained (map ascii_lower) ''SHOE'') [clothing, toys] =
          filteredCategories (map ascii_lower) [clothing, toys] ''SHOE''"
    by (rule filteredCategories_retains_matching_subtrees [symmetric])
  also have "\<dots> = [clothing]" by code_simp
  finally have a: "filter (spec_retained (map ascii_lower) ''SHOE'') [clothing, toys] = [clothing]" .
  have "filter (spec_retained (map ascii_lower) ''zzz'') [clothing, toys] =
          filteredCategories (map ascii_lower) [clothing, toys] ''zzz''"
    by (rule filteredCategories_retains_matching_subtrees [symmetric])
  also have "\<dots> = []" by code_simp
  finally have b: "filter (spec_retained (map ascii_lower) ''zzz'') [clothing, toys] = []" .
  have "filter (spec_retained (map latin1_lower) [233]) [ecole, cafe] =
          filteredCategories (map latin1_lower) [ecole, cafe] [233]"
    by (rule filteredCategories_retains_matching_subtrees [symmetric])
  also have "\<dots> = [ecole, cafe]" by code_simp
  finally have c: "filter (spec_retained (map latin1_lower) [233]) [ecole, cafe] = [ecole, cafe]" .
  have "filter (spec_retained (map latin1_lower) [67, 65, 70, 201]) [ecole, cafe] =
          filteredCategories (map latin1_lower) [ecole, cafe] [67, 65, 70, 201]"
    by (rule filteredCategories_retains_matching_subtrees [symmetric])
  also have "\<dots> = [cafe]" by code_simp
  finally have d: "filter (spec_retained (map latin1_lower) [67, 65, 70, 201]) [ecole, cafe] = [cafe]" .
  from a b c d show ?thesis by simp
qed

section \<open>Logout\<close>

text \<open>
  Claim C8, as the code has it. \<open>handleLogout\<close> has no guard for a session that is already
  gone. While the store works, one call leaves the Unauthenticated state (no persisted
  \<open>user\<close> record, no in-memory user, \<open>isAuthenticated\<close> false), a second call in a row
  leaves that same state and writes no error; but the second call is not skipped: it
  removes the key and calls \<open>router.replace('/')\<close> once more.
\<close>

theorem logout_twice_same_session:
  assumes "storage_available w"
  shows "storage (snd (handleLogout (a, w))) ''user'' = None \<and>
         user (fst (handleLogout (a, w))) = None \<and>
         \<not> isAuthenticated (fst (handleLogout (a, w))) \<and>
         fst (handleLogout (handleLogout (a, w))) = fst (handleLogout (a, w)) \<and>
         storage (snd (handleLogout (handleLogout (a, w)))) = storage (snd (handleLogout (a, w))) \<and>
         console_errors (snd (handleLogout (handleLogout (a, w)))) = console_errors w \<and>
         navigations (snd (handleLogout (a, w))) = navigations w @ [''/''] \<and>
         navigations (snd (handleLogout (handleLogout (a, w)))) = navigations w @ [''/'', ''/'']"
  using assms by (simp add: handleLogout_def AsyncStorage_removeItem_def fun_upd_idem)

text \<open>A logged-in session with a persisted record, logged out twice.\<close>

theorem logout_twice_same_session_witness:
  "storage_available world_in \<and>
   storage world_in ''user'' \<noteq> None \<and>
   storage (snd (handleLogout (logged_in, world_in))) ''user'' = None \<and>
   fst (handleLogout (logged_in, world_in)) = logged_out \<and>
   fst (handleLogout (handleLogout (logged_in, world_in))) = logged_out \<and>
   storage (snd (handleLogout (handleLogout (logged_in, world_in)))) =
     storage (snd (handleLogout (logged_in, world_in)))"
proof -
  have h: "storage_available world_in" by (simp add: world_in_def world0_def)
  have s: "storage world_in ''user'' \<noteq> None" by (simp add: world_in_def world0_def)
  have l: "fst (handleLogout (logged_in, world_in)) = logged_out"
    using h by (simp add: handleLogout_def AsyncStorage_removeItem_def logged_in_def logged_out_def)
  show ?thesis
    using logout_twice_same_session [OF h, of logged_in] h s l by simp
qed

text \<open>
  The second call has an effect of its own: after it the router has been sent to the root
  twice, so the world after two calls is not the world after one.
\<close>

theorem second_logout_navigates_again_counterexample:
  "navigations (snd (handleLogout (logged_in, world_in))) = [''/''] \<and>
   navigations (snd (handleLogout (handleLogout (logged_in, world_in)))) = [''/'', ''/''] \<and>
   handleLogout (handleLogout (logged_in, world_in)) \<noteq> handleLogout (logged_in, world_in)"
  by (simp add: handleLogout_def AsyncStorage_removeItem_def world_in_def world0_def)

section \<open>The credential of \<open>deleteCategory\<close>\<close>

text \<open>
  No operation writes the key \<open>token\<close> of the store: the gateway operations leave the store
  alone, a login writes the key \<open>user\<close>, a logout removes it.
\<close>

lemma axios_call_storage:
  "storage (snd (axios_call remote req m1 m2 w)) = storage w \<and>
   storage_available (snd (axios_call remote req m1 m2 w)) = storage_available w \<and>
   emitted (snd (axios_call remote req m1 m2 w)) \<in> {emitted w, emitted w @ [''logout'']}"
  by (simp add: axios_call_def send_def catch_block_def handleAuthError_def EventRegister_emit_def
      split: axios_outcome.splits)

lemma handleLogout_token:
  "storage (snd (handleLogout aw)) ''token'' = storage (snd aw) ''token'' \<and>
   storage_available (snd (handleLogout aw)) = storage_available (snd aw)"
  by (cases aw) (simp add: handleLogout_def AsyncStorage_removeItem_def)

lemma deliver_token:
  "storage (snd (deliver evs aw)) ''token'' = storage (snd aw) ''token'' \<and>
   storage_available (snd (deliver evs aw)) = storage_available (snd aw)"
  by (induction evs arbitrary: aw) (simp_all add: handleLogout_token)

lemma listener_token:
  "storage (snd (listener w a rw)) ''token'' = storage (snd rw) ''token'' \<and>
   storage_available (snd (listener w a rw)) = storage_available (snd rw)"
  by (simp add: listener_def deliver_token)

lemma login_storage:
  "storage (snd (login remote name password w)) = storage w \<and>
   storage_available (snd (login remote name password w)) = storage_available w"
  by (simp add: login_def send_def login_catch_def split: axios_outcome.splits option.splits)

lemma handleLogin_token:
  "storage (snd (snd (handleLogin remote name password (a, w)))) ''token'' = storage w ''token'' \<and>
   storage_available (snd (snd (handleLogin remote name password (a, w)))) = storage_available w"
  using login_storage [of remote name password w]
  by (auto simp: handleLogin_def AsyncStorage_setItem_def Let_def split: prod.splits sum.splits)

lemma checkAuthState_world: "snd (checkAuthState parse (a, w)) = w"
  by (simp add: checkAuthState_def split: sum.splits option.splits)

lemma deleteCategory_storage:
  "storage (snd (deleteCategory remote i w)) = storage w \<and>
   storage_available (snd (deleteCategory remote i w)) = storage_available w"
  by (simp add: deleteCategory_def fetch_def send_def split: sum.splits axios_outcome.splits option.splits)

lemma snd_result_case:
  "snd (case p of (Inl e, w') \<Rightarrow> (Inl e, w') | (Inr d, w') \<Rightarrow> (Inr (f d), w')) = snd p"
  by (auto split: prod.splits sum.splits)

lemma snd_discard: "snd (discard p) = snd p"
  by (auto simp: discard_def split: prod.splits sum.splits)

lemma step_token:
  "storage (snd (step remote parse x (a, w))) ''token'' = storage w ''token'' \<and>
   storage_available (snd (step remote parse x (a, w))) = storage_available w"
proof (cases x)
  case (Login name password)
  then show ?thesis by (simp add: handleLogin_token)
next
  case Logout
  then show ?thesis using handleLogout_token [of "(a, w)"] by simp
next
  case CheckAuthState
  then show ?thesis by (simp add: checkAuthState_world)
next
  case (DeleteCategory i)
  then show ?thesis by (simp add: listener_token deleteCategory_storage)
qed (simp_all add: listener_token axios_call_storage snd_discard snd_result_case getOrders_def
        getOrderDetails_def getProducts_def getProductDetails_def getCustomers_def
        getCustomerDetails_def getCategories_def getCategoryDetails_def createProduct_def
        uploadProductImage_def deleteProduct_def deleteProductImage_def updateProduct_def)

lemma run_token:
  "storage (snd (run remote parse xs aw)) ''token'' = storage (snd aw) ''token'' \<and>
   storage_available (snd (run remote parse xs aw)) = storage_available (snd aw)"
proof (induction xs arbitrary: aw)
  case Nil
  then show ?case by simp
next
  case (Cons x xs)
  obtain a w where aw: "aw = (a, w)" by (cases aw)
  show ?case
    using Cons.IH [of "step remote parse x (a, w)"] step_token [of remote parse x a w] aw by simp
qed

lemma deleteCategory_request_sent:
  assumes "storage_available w"
  shows "requests (snd (deleteCategory remote i w)) =
           requests w @ [deleteCategory_request (storage w ''token'') i]"
  using assms
  by (simp add: deleteCategory_def AsyncStorage_getItem_def fetch_def send_def
      split: axios_outcome.splits option.splits)

lemma handleLogin_success:
  assumes "handleLogin remote name password (a, w) = (Inr (), a', w')"
  shows "\<exists>t. user a' = Some \<lparr>username = name, token = t\<rparr> \<and>
             storage w' = (storage w)(''user'' \<mapsto> JSON_stringify \<lparr>username = name, token = t\<rparr>)"
  using assms login_storage [of remote name password w]
  by (auto simp: handleLogin_def AsyncStorage_setItem_def Let_def
      split: prod.splits sum.splits if_splits)

text \<open>
  Claim C9. Whatever the store holds, \<open>deleteCategory\<close> attaches as bearer credential the
  value it reads from the store under the key \<open>token\<close> (\<open>null\<close> when the key is absent);
  no run of operations, logins included (they persist the session under \<open>user\<close> only:
  lemma \<open>handleLogin_success\<close>), changes what the store holds under that key; so
  starting from a store without the key the request carries \<open>Bearer null\<close> after any
  run, and never the token a login obtained.
\<close>

theorem deleteCategory_never_sends_login_token:
  assumes "storage_available w" and "run remote parse xs (a, w) = (a', w')"
  shows "(\<exists>req. requests (snd (deleteCategory remote i w')) = requests w' @ [req] \<and>
               req = deleteCategory_request (storage w' ''token'') i \<and>
               Authorization req =
                 Some (''Bearer '' @ (case storage w ''token'' of None \<Rightarrow> ''null'' | Some s \<Rightarrow> s))) \<and>
         storage w' ''token'' = storage w ''token'' \<and>
         (storage w ''token'' = None \<longrightarrow>
            requests (snd (deleteCategory remote i w')) =
              requests w' @ [deleteCategory_request None i] \<and>
            Authorization (deleteCategory_request None i) = Some ''Bearer null'')"
proof -
  have t: "storage w' ''token'' = storage w ''token''" and v: "storage_available w'"
    using run_token [of remote parse xs "(a, w)"] assms by simp_all
  have q: "requests (snd (deleteCategory remote i w')) =
             requests w' @ [deleteCategory_request (storage w' ''token'') i]"
    using v by (rule deleteCategory_request_sent)
  have h: "Authorization (deleteCategory_request (storage w' ''token'') i) =
             Some (''Bearer '' @ (case storage w ''token'' of None \<Rightarrow> ''null'' | Some s \<Rightarrow> s))"
    by (simp add: deleteCategory_request_def bearer_stored_def t)
  have n: "Authorization (deleteCategory_request None i) = Some ''Bearer null''"
    by (simp add: deleteCategory_request_def bearer_stored_def)
  from q h t n show ?thesis by simp
qed

text \<open>
  With \<open>abc123\<close> stored under \<open>token\<close>, the delete of category 5 carries
  \<open>Bearer abc123\<close>. And after a login that obtains the token \<open>abc123\<close> on a store without
  the key, the session holds the token while the delete of category 5 carries
  \<open>Bearer null\<close>.
\<close>

lemma run_login: "run token_issuer no_parse [Login ''admin'' ''secret''] (logged_out, world0) =
   (\<lparr>user = Some \<lparr>username = ''admin'', token = ''abc123''\<rparr>, isAuthenticated = True\<rparr>,
    world0\<lparr>requests := [\<lparr>http_method = ''POST'', url = BASE_URL @ ''/rest/V1/integration/admin/token'',
         Authorization = None, params = None, body = Some (Credentials ''admin'' ''secret'')\<rparr>],
       storage := [''user'' \<mapsto> JSON_stringify \<lparr>username = ''admin'', token = ''abc123''\<rparr>]\<rparr>)"
  by (simp add: handleLogin_def login_def send_def token_issuer_def world0_def
      AsyncStorage_setItem_def logged_out_def Let_def)

theorem deleteCategory_never_sends_login_token_witness:
  "storage_available world_tok \<and> storage world_tok ''token'' = Some ''abc123'' \<and>
   (\<exists>req. requests (snd (deleteCategory token_issuer 5 world_tok)) = requests world_tok @ [req] \<and>
          Authorization req = Some ''Bearer abc123'') \<and>
   storage_available world0 \<and> storage world0 ''token'' = None \<and>
   (\<exists>a' w'. run token_issuer no_parse [Login ''admin'' ''secret''] (logged_out, world0) = (a', w') \<and>
      user a' = Some \<lparr>username = ''admin'', token = ''abc123''\<rparr> \<and>
      requests (snd (deleteCategory token_issuer 5 w')) =
        requests w' @ [deleteCategory_request None 5] \<and>
      Authorization (deleteCategory_request None 5) = Some ''Bearer null'')"
proof -
  have k1: "storage_available world_tok" by (simp add: world_tok_def world0_def)
  have k2: "storage world_tok ''token'' = Some ''abc123''" by (simp add: world_tok_def world0_def)
  have k3: "run token_issuer no_parse [] (logged_out, world_tok) = (logged_out, world_tok)"
    by simp
  from deleteCategory_never_sends_login_token [OF k1 k3, of 5]
  have "\<exists>req. requests (snd (deleteCategory token_issuer 5 world_tok)) = requests world_tok @ [req] \<and>
          Authorization req =
            Some (''Bearer '' @ (case storage world_tok ''token'' of None \<Rightarrow> ''null'' | Some s \<Rightarrow> s))"
    by blast
  then have p1: "\<exists>req. requests (snd (deleteCategory token_issuer 5 world_tok)) = requests world_tok @ [req] \<and>
          Authorization req = Some ''Bearer abc123''"
    by (simp add: k2)
  have h1: "storage_available world0" by (simp add: world0_def)
  have h2: "storage world0 ''token'' = None" by (simp add: world0_def)
  obtain a' w' where r: "run token_issuer no_parse [Login ''admin'' ''secret''] (logged_out, world0) = (a', w')"
    and u: "user a' = Some \<lparr>username = ''admin'', token = ''abc123''\<rparr>"
    using run_login by simp
  from deleteCategory_never_sends_login_token [OF h1 r, of 5] h2
  have "requests (snd (deleteCategory token_issuer 5 w')) =
           requests w' @ [deleteCategory_request None 5] \<and>
         Authorization (deleteCategory_request None 5) = Some ''Bearer null''"
    by blast
  with r u have p2: "\<exists>a' w'. run token_issuer no_parse [Login ''admin'' ''secret''] (logged_out, world0) = (a', w') \<and>
      user a' = Some \<lparr>username = ''admin'', token = ''abc123''\<rparr> \<and>
      requests (snd (deleteCategory token_issuer 5 w')) =
        requests w' @ [deleteCategory_request None 5] \<and>
      Authorization (deleteCategory_request None 5) = Some ''Bearer null''"
    by blast
  from k1 k2 p1 h1 h2 p2 show ?thesis by blast
qed

section \<open>Bulk delete\<close>

text \<open>
  Both loops stop at the first error; every gateway call adds exactly one request to the
  log, so the requests of a run are a prefix of the steps of the selected items, and all of
  them when the run succeeds.
\<close>

lemma delete_loop_append:
  "delete_loop remote t ps (xs @ ys) w =
     (case delete_loop remote t ps xs w of
        (Inl e, w') \<Rightarrow> (Inl e, w')
      | (Inr u, w') \<Rightarrow> delete_loop remote t ps ys w')"
  by (induction xs arbitrary: w) (auto split: prod.splits sum.splits)

lemma delete_images_append:
  "delete_images remote t k (xs @ ys) w =
     (case delete_images remote t k xs w of
        (Inl e, w') \<Rightarrow> (Inl e, w')
      | (Inr u, w') \<Rightarrow> delete_images remote t k ys w')"
  by (induction xs arbitrary: w) (auto split: prod.splits sum.splits)

lemma axios_call_requests:
  "requests (snd (axios_call remote req m1 m2 w)) = requests w @ [req]"
  by (simp add: axios_call_def send_def catch_block_def handleAuthError_def EventRegister_emit_def
      split: axios_outcome.splits)

lemma deleteProduct_requests:
  "requests (snd (deleteProduct remote t k w)) = requests w @ [deleteProduct_request t k]"
  by (simp add: deleteProduct_def snd_discard axios_call_requests)

lemma deleteProductImage_requests:
  "requests (snd (deleteProductImage remote t k i w)) = requests w @ [deleteProductImage_request t k i]"
  by (simp add: deleteProductImage_def snd_discard axios_call_requests)

lemma delete_images_requests:
  "delete_images remote t k es w = (r, w') \<Longrightarrow>
   \<exists>rs. requests w' = requests w @ rs \<and>
        prefix rs (map (\<lambda>img. deleteProductImage_request t k (entry_id img)) es) \<and>
        (r = Inr () \<longrightarrow> rs = map (\<lambda>img. deleteProductImage_request t k (entry_id img)) es)"
proof (induction es arbitrary: w)
  case Nil
  then show ?case by auto
next
  case (Cons img es)
  obtain r1 w1 where d: "deleteProductImage remote t k (entry_id img) w = (r1, w1)"
    by (cases "deleteProductImage remote t k (entry_id img) w")
  have q: "requests w1 = requests w @ [deleteProductImage_request t k (entry_id img)]"
    using deleteProductImage_requests [of remote t k "entry_id img" w] d by simp
  show ?case
  proof (cases r1)
    case (Inl e)
    with Cons.prems d have "r = Inl e" "w' = w1" by simp_all
    with q show ?thesis by auto
  next
    case (Inr u)
    with Cons.prems d have "delete_images remote t k es w1 = (r, w')" by simp
    from Cons.IH [OF this] q show ?thesis by auto
  qed
qed

lemma delete_one_requests:
  "delete_one remote t ps k w = (r, w') \<Longrightarrow>
   \<exists>rs. requests w' = requests w @ rs \<and> prefix rs (steps_of t ps k) \<and>
        (r = Inr () \<longrightarrow> rs = steps_of t ps k)"
proof (cases "entries_of ps k")
  case None
  assume "delete_one remote t ps k w = (r, w')"
  with None have "deleteProduct remote t k w = (r, w')" by (simp add: delete_one_def)
  with deleteProduct_requests [of remote t k w] None show ?thesis
    by (simp add: steps_of_def)
next
  case (Some es)
  assume a: "delete_one remote t ps k w = (r, w')"
  obtain r1 w1 where d: "delete_images remote t k es w = (r1, w1)"
    by (cases "delete_images remote t k es w")
  from delete_images_requests [OF d] obtain rs where
    rs: "requests w1 = requests w @ rs"
      "prefix rs (map (\<lambda>img. deleteProductImage_request t k (entry_id img)) es)"
      "r1 = Inr () \<longrightarrow> rs = map (\<lambda>img. deleteProductImage_request t k (entry_id img)) es"
    by blast
  show ?thesis
  proof (cases r1)
    case (Inl e)
    with a d Some have "r = Inl e" "w' = w1" by (simp_all add: delete_one_def)
    with rs Some show ?thesis by (auto simp: steps_of_def)
  next
    case (Inr u)
    with a d Some have p: "deleteProduct remote t k w1 = (r, w')" by (simp add: delete_one_def)
    with deleteProduct_requests [of remote t k w1] rs Inr Some show ?thesis
      by (simp add: steps_of_def)
  qed
qed

lemma delete_loop_requests:
  "delete_loop remote t ps xs w = (r, w') \<Longrightarrow>
   \<exists>rs. requests w' = requests w @ rs \<and> prefix rs (concat (map (steps_of t ps) xs)) \<and>
        (r = Inr () \<longrightarrow> rs = concat (map (steps_of t ps) xs))"
proof (induction xs arbitrary: w)
  case Nil
  then show ?case by auto
next
  case (Cons k xs)
  obtain r1 w1 where d: "delete_one remote t ps k w = (r1, w1)"
    by (cases "delete_one remote t ps k w")
  from delete_one_requests [OF d] obtain rs where
    rs: "requests w1 = requests w @ rs" "prefix rs (steps_of t ps k)"
      "r1 = Inr () \<longrightarrow> rs = steps_of t ps k"
    by blast
  show ?case
  proof (cases r1)
    case (Inl e)
    with Cons.prems d have "r = Inl e" "w' = w1" by simp_all
    with rs show ?thesis by auto
  next
    case (Inr u)
    with Cons.prems d have "delete_loop remote t ps xs w1 = (r, w')" by simp
    from Cons.IH [OF this] rs Inr show ?thesis by auto
  qed
qed

text \<open>
  Claim C3, as the code has it. The handler wraps both loops in a single \<open>try\<close>. When the
  items before \<open>k\<close> are deleted and a step of item \<open>k\<close> fails, the handler shows that error
  and stops: the selection stays as it was, no success is reported, and the requests issued
  are a prefix of the steps of the items up to \<open>k\<close>, so no item after \<open>k\<close> is attempted.
\<close>

theorem bulk_delete_stops_at_first_failure:
  assumes "delete_loop remote (current_token a) (products s) before w = (Inr (), w1)"
    and "delete_one remote (current_token a) (products s) k w1 = (Inl e, w2)"
    and "selectedProducts s = before @ k # after"
  shows "handleDeleteSelected remote a s w =
           (s\<lparr>loading := False, alerts := alerts s @ [(''Error'', message e)]\<rparr>, w2) \<and>
         (\<exists>rs. requests w2 = requests w @ rs \<and>
               prefix rs (concat (map (steps_of (current_token a) (products s)) (before @ [k]))))"
proof -
  have l: "delete_loop remote (current_token a) (products s) (before @ [k]) w = (Inl e, w2)"
    using assms(1,2) by (simp add: delete_loop_append)
  then have "delete_loop remote (current_token a) (products s) ((before @ [k]) @ after) w = (Inl e, w2)"
    by (simp only: delete_loop_append [of _ _ _ "before @ [k]"] split: prod.splits) simp
  then have "delete_loop remote (current_token a) (products s) (selectedProducts s) w = (Inl e, w2)"
    using assms(3) by simp
  then have h: "handleDeleteSelected remote a s w =
           (s\<lparr>loading := False, alerts := alerts s @ [(''Error'', message e)]\<rparr>, w2)"
    by (simp add: handleDeleteSelected_def Let_def)
  from delete_loop_requests [OF l] h show ?thesis by blast
qed


text \<open>
  \<open>A\<close> and \<open>B\<close> selected, and the platform refuses to delete the product \<open>A\<close>: the media
  entry of \<open>A\<close> is deleted, the delete of \<open>A\<close> fails, and that is all.
\<close>

lemma delete_A_fails:
  "delete_one (failing_at (url (deleteProduct_request ''tok'' ''A''))) (current_token logged_in)
     (products screen_AB) ''A'' world0 =
   (Inl (http_error 500),
    world0\<lparr>requests := [deleteProductImage_request ''tok'' ''A'' 7, deleteProduct_request ''tok'' ''A'']\<rparr>)"
  by (simp add: delete_one_def entries_of_def screen_AB_def product_A_def product_B_def
      deleteProductImage_def deleteProduct_def discard_def axios_call_def send_def catch_block_def
      handleAuthError_def failing_at_def deleteProduct_request_def deleteProductImage_request_def
      current_token_def logged_in_def http_error_def world0_def)

theorem bulk_delete_stops_at_first_failure_witness:
  "delete_loop (failing_at (url (deleteProduct_request ''tok'' ''A''))) (current_token logged_in)
     (products screen_AB) [] world0 = (Inr (), world0) \<and>
   selectedProducts screen_AB = [] @ ''A'' # [''B''] \<and>
   handleDeleteSelected (failing_at (url (deleteProduct_request ''tok'' ''A''))) logged_in screen_AB world0 =
     (screen_AB\<lparr>loading := False, alerts := [(''Error'', message (http_error 500))]\<rparr>,
      world0\<lparr>requests := [deleteProductImage_request ''tok'' ''A'' 7, deleteProduct_request ''tok'' ''A'']\<rparr>)"
proof -
  have h1: "delete_loop (failing_at (url (deleteProduct_request ''tok'' ''A''))) (current_token logged_in)
     (products screen_AB) [] world0 = (Inr (), world0)"
    by simp
  have h3: "selectedProducts screen_AB = [] @ ''A'' # [''B'']"
    by (simp add: screen_AB_def)
  have e: "alerts screen_AB = []" by (simp add: screen_AB_def)
  show ?thesis
    using bulk_delete_stops_at_first_failure [OF h1 delete_A_fails h3] h1 h3 e by simp
qed

text \<open>
  In that run no request for \<open>B\<close> is ever issued: \<open>B\<close> is not attempted, let alone reported
  as a success.
\<close>

theorem bulk_delete_skips_later_items_counterexample:
  "requests (snd (handleDeleteSelected (failing_at (url (deleteProduct_request ''tok'' ''A'')))
       logged_in screen_AB world0)) =
     [deleteProductImage_request ''tok'' ''A'' 7, deleteProduct_request ''tok'' ''A''] \<and>
   deleteProduct_request ''tok'' ''B'' \<notin> set (requests (snd (handleDeleteSelected
       (failing_at (url (deleteProduct_request ''tok'' ''A''))) logged_in screen_AB world0))) \<and>
   alerts (fst (handleDeleteSelected (failing_at (url (deleteProduct_request ''tok'' ''A'')))
       logged_in screen_AB world0)) = [(''Error'', ''Request failed with status code 500'')]"
  by code_simp

text \<open>
  Claim C4, as the code has it. Within one item, when the media entries before \<open>img\<close> are
  deleted and the delete of \<open>img\<close> fails, the item fails with that error at once: the
  requests issued for it are the deletes of the entries up to \<open>img\<close>, the later
  entries and the product itself are not attempted, and (the item being the only one
  selected) the handler shows the error.
\<close>

theorem media_failure_aborts_item:
  assumes "entries_of (products s) k = Some (finished @ img # rest)"
    and "delete_images remote (current_token a) k finished w = (Inr (), w1)"
    and "deleteProductImage remote (current_token a) k (entry_id img) w1 = (Inl e, w2)"
  shows "delete_one remote (current_token a) (products s) k w = (Inl e, w2) \<and>
         requests w2 = requests w @
           map (\<lambda>i. deleteProductImage_request (current_token a) k (entry_id i)) (finished @ [img]) \<and>
         deleteProduct_request (current_token a) k \<notin> set (drop (length (requests w)) (requests w2)) \<and>
         (selectedProducts s = [k] \<longrightarrow>
            handleDeleteSelected remote a s w =
              (s\<lparr>loading := False, alerts := alerts s @ [(''Error'', message e)]\<rparr>, w2))"
proof -
  have i: "delete_images remote (current_token a) k (finished @ img # rest) w = (Inl e, w2)"
    using assms(2,3) by (simp add: delete_images_append)
  then have o: "delete_one remote (current_token a) (products s) k w = (Inl e, w2)"
    using assms(1) by (simp add: delete_one_def)
  from delete_images_requests [OF assms(2)]
  have q1: "requests w1 = requests w @
      map (\<lambda>i. deleteProductImage_request (current_token a) k (entry_id i)) finished"
    by auto
  have q2: "requests w2 = requests w1 @ [deleteProductImage_request (current_token a) k (entry_id img)]"
    using deleteProductImage_requests [of remote "current_token a" k "entry_id img" w1] assms(3)
    by simp
  have q: "requests w2 = requests w @
           map (\<lambda>i. deleteProductImage_request (current_token a) k (entry_id i)) (finished @ [img])"
    using q1 q2 by simp
  have d: "deleteProduct_request t k \<noteq> deleteProductImage_request t k j" for t j
    by (simp add: deleteProduct_request_def deleteProductImage_request_def)
  have n: "deleteProduct_request (current_token a) k \<notin> set (drop (length (requests w)) (requests w2))"
    using d by (auto simp: q)
  have h: "selectedProducts s = [k] \<longrightarrow>
            handleDeleteSelected remote a s w =
              (s\<lparr>loading := False, alerts := alerts s @ [(''Error'', message e)]\<rparr>, w2)"
    using o by (simp add: handleDeleteSelected_def Let_def)
  from o q n h show ?thesis by blast
qed


text \<open>Only \<open>A\<close> selected, and the platform refuses to delete its media entry 7.\<close>

lemma delete_media_7_fails:
  "deleteProductImage (failing_at (url (deleteProductImage_request ''tok'' ''A'' 7)))
     (current_token logged_in) ''A'' (entry_id media_7) world0 =
   (Inl (http_error 500), world0\<lparr>requests := [deleteProductImage_request ''tok'' ''A'' 7]\<rparr>)"
  by (simp add: deleteProductImage_def discard_def axios_call_def send_def catch_block_def
      handleAuthError_def failing_at_def media_7_def current_token_def logged_in_def
      http_error_def world0_def)

theorem media_failure_aborts_item_witness:
  "entries_of (products screen_A) ''A'' = Some ([] @ media_7 # []) \<and>
   delete_images (failing_at (url (deleteProductImage_request ''tok'' ''A'' 7)))
     (current_token logged_in) ''A'' [] world0 = (Inr (), world0) \<and>
   selectedProducts screen_A = [''A''] \<and>
   handleDeleteSelected (failing_at (url (deleteProductImage_request ''tok'' ''A'' 7))) logged_in
       screen_A world0 =
     (screen_A\<lparr>loading := False, alerts := [(''Error'', message (http_error 500))]\<rparr>,
      world0\<lparr>requests := [deleteProductImage_request ''tok'' ''A'' 7]\<rparr>)"
proof -
  have h1: "entries_of (products screen_A) ''A'' = Some ([] @ media_7 # [])"
    by (simp add: entries_of_def screen_A_def screen_AB_def product_A_def media_7_def)
  have h2: "delete_images (failing_at (url (deleteProductImage_request ''tok'' ''A'' 7)))
     (current_token logged_in) ''A'' [] world0 = (Inr (), world0)"
    by simp
  have s: "selectedProducts screen_A = [''A'']" by (simp add: screen_A_def)
  have e: "alerts screen_A = []" by (simp add: screen_A_def screen_AB_def)
  from media_failure_aborts_item [OF h1 h2 delete_media_7_fails] s
  have "handleDeleteSelected (failing_at (url (deleteProductImage_request ''tok'' ''A'' 7))) logged_in
       screen_A world0 =
     (screen_A\<lparr>loading := False, alerts := alerts screen_A @ [(''Error'', message (http_error 500))]\<rparr>,
      world0\<lparr>requests := [deleteProductImage_request ''tok'' ''A'' 7]\<rparr>)"
    by blast
  with h1 h2 s e show ?thesis by simp
qed

text \<open>
  The scenario of the specification: \<open>A\<close> and \<open>B\<close> selected, the media delete of \<open>A\<close> fails.
  The only request is that media delete; the product \<open>A\<close> is not deleted, \<open>B\<close> is not
  attempted, and the screen shows the error with both items still selected.
\<close>

theorem media_failure_skips_primary_counterexample:
  "requests (snd (handleDeleteSelected (failing_at (url (deleteProductImage_request ''tok'' ''A'' 7)))
       logged_in screen_AB world0)) = [deleteProductImage_request ''tok'' ''A'' 7] \<and>
   deleteProduct_request ''tok'' ''A'' \<notin> set (requests (snd (handleDeleteSelected
       (failing_at (url (deleteProductImage_request ''tok'' ''A'' 7))) logged_in screen_AB world0))) \<and>
   alerts (fst (handleDeleteSelected (failing_at (url (deleteProductImage_request ''tok'' ''A'' 7)))
       logged_in screen_AB world0)) = [(''Error'', ''Request failed with status code 500'')] \<and>
   selectedProducts (fst (handleDeleteSelected (failing_at (url (deleteProductImage_request ''tok'' ''A'' 7)))
       logged_in screen_AB world0)) = [''A'', ''B'']"
  by code_simp

end
